theory Spec2Isabelle
  imports Main "HOL-Library.Word"
begin

unbundle bit_operations_syntax

section \<open>Target, constants and macros\<close>

text \<open>
  \<^verbatim>\<open>size_t\<close> and every pointer are \<open>'a word\<close>: \<open>'a\<close> is 64 on an LP64 build target and
  32 on the others, and the preprocessor symbol \<^verbatim>\<open>__LP64__\<close> is read off the width.
  A C \<^verbatim>\<open>int\<close> on which the code does no arithmetic (errno values, thread ids,
  scheduling policies, return codes) is an \<open>int\<close>; its bit test \<^verbatim>\<open>&\<close> is \<open>AND\<close> on
  \<open>int\<close>, which is two's complement. \<^verbatim>\<open>uint32_t\<close> is \<open>32 word\<close>.
\<close>

definition LP64 :: "'a::len itself \<Rightarrow> bool" where
  "LP64 t = (LENGTH('a) = 64)"

text \<open>\<^verbatim>\<open>PAGE_SIZE\<close> (4096 in the C library's headers) and \<^verbatim>\<open>PTHREAD_GUARD_SIZE\<close>
  (defined as \<^verbatim>\<open>PAGE_SIZE\<close> in pthread_internal.h): the minimum per-thread guard.\<close>

definition PAGE_SIZE :: "'a::len word" where
  "PAGE_SIZE = 4096"

definition PTHREAD_GUARD_SIZE :: "'a::len word" where
  "PTHREAD_GUARD_SIZE = PAGE_SIZE"

text \<open>\<^verbatim>\<open>__BIONIC_ALIGN(value, alignment)\<close> is
  \<^verbatim>\<open>(((value) + (alignment) - 1) & ~((alignment) - 1))\<close>, computed in the type of
  \<^verbatim>\<open>value\<close>, so it wraps at that width; \<^verbatim>\<open>__BIONIC_ALIGN_DOWN\<close> is
  \<^verbatim>\<open>((value) & ~((alignment) - 1))\<close>.\<close>

definition BIONIC_ALIGN :: "'a::len word \<Rightarrow> 'a word \<Rightarrow> 'a word" where
  "BIONIC_ALIGN v alignment = (v + alignment - 1) AND NOT (alignment - 1)"

definition BIONIC_ALIGN_DOWN :: "'a::len word \<Rightarrow> 'a word \<Rightarrow> 'a word" where
  "BIONIC_ALIGN_DOWN v alignment = v AND NOT (alignment - 1)"

text \<open>\<^verbatim>\<open>__builtin_add_overflow(a, b, &r)\<close>: \<open>None\<close> when the sum does not fit the
  type (the builtin returns true), otherwise the sum.\<close>

definition add_overflow :: "'a::len word \<Rightarrow> 'a word \<Rightarrow> 'a word option" where
  "add_overflow a b = (if unat a + unat b < 2 ^ LENGTH('a) then Some (a + b) else None)"

text \<open>Modelled from the spec: \<^verbatim>\<open>arc4random_uniform(upper_bound)\<close> is the C library's
  random source, not part of pthread_create.cpp; it returns a 32-bit value below
  \<open>upper_bound\<close>, and 0 when \<open>upper_bound < 2\<close>. The raw random word of a run is
  an input of the model.\<close>

definition arc4random_uniform :: "32 word \<Rightarrow> 32 word \<Rightarrow> 32 word" where
  "arc4random_uniform raw upper_bound = (if upper_bound < 2 then 0 else raw mod upper_bound)"

section \<open>The operating system as seen by thread creation\<close>

datatype prot = PROT_NONE | PROT_READ_WRITE

text \<open>Records and datatypes are parametrised by the type \<open>'w\<close> of addresses and
  sizes; the functions below use them at \<open>'a word\<close>.\<close>

text \<open>The calls the code makes, in order, with what each returned.\<close>

datatype 'w call =
    Mmap 'w prot "'w option"
  | Mprotect 'w 'w prot bool
  | Munmap 'w 'w
  | Prctl_set_vma_anon_name 'w 'w string
  | Clone 'w 'w int
  | Sched_getscheduler int
  | Sched_getparam int
  | Sched_setscheduler int int int int
  | Log_warn string
  | Pthread_internal_add 'w
  | Lock_lock 'w
  | Lock_unlock 'w

text \<open>What the operating system answers in one run: each fallible call of
  \<^verbatim>\<open>pthread_create\<close> is made at most once, so one answer per call site suffices.
  A failure (\<open>Inl\<close>, or \<open>Some\<close> for a call that returns only 0 or -1) carries the
  errno the call sets. The kernel's thread ids and scheduling policies are never
  negative, so a successful \<^verbatim>\<open>clone\<close> or \<^verbatim>\<open>sched_getscheduler\<close> answers a
  natural number.\<close>

record 'w env =
  gap_random :: "32 word"
  top_random :: "32 word"
  mmap_ret :: "int + 'w"
  mprotect_stack_ret :: "int option"
  mprotect_tls_ret :: "int option"
  clone_ret :: "int + nat"
  sched_getscheduler_ret :: "int + nat"
  sched_getparam_ret :: "int + int"
  sched_setscheduler_ret :: "int option"
  getpid_ret :: int

text \<open>Process-wide values of the C library that pthread_create.cpp only reads: the
  attributes \<^verbatim>\<open>pthread_attr_init\<close> writes, \<^verbatim>\<open>sizeof(pthread_internal_t)\<close>, the static TLS layout
  (\<^verbatim>\<open>__libc_shared_globals()->static_tls_layout\<close>) and \<^verbatim>\<open>__stack_chk_guard\<close>.\<close>

record 'w pthread_attr_t =
  attr_flags :: "32 word"
  attr_stack_base :: 'w
  attr_stack_size :: 'w
  attr_guard_size :: 'w
  attr_sched_policy :: int
  attr_sched_priority :: int

record 'w libc_globals =
  pthread_attr_init :: "'w pthread_attr_t"
  sizeof_pthread_internal_t :: 'w
  layout_size :: 'w
  layout_offset_bionic_tcb :: 'w
  layout_offset_bionic_tls :: 'w
  stack_chk_guard :: 'w

section \<open>Thread data\<close>

text \<open>The attribute flags and scheduling constants of the C library's headers.\<close>

definition PTHREAD_ATTR_FLAG_DETACHED :: "32 word" where
  "PTHREAD_ATTR_FLAG_DETACHED = 0x00000001"

definition PTHREAD_ATTR_FLAG_INHERIT :: "32 word" where
  "PTHREAD_ATTR_FLAG_INHERIT = 0x00000004"

definition PTHREAD_ATTR_FLAG_EXPLICIT :: "32 word" where
  "PTHREAD_ATTR_FLAG_EXPLICIT = 0x00000008"

definition SCHED_NORMAL :: int where
  "SCHED_NORMAL = 0"

definition SCHED_RESET_ON_FORK :: int where
  "SCHED_RESET_ON_FORK = 0x40000000"

definition EAGAIN :: int where
  "EAGAIN = 11"

datatype ThreadJoinState = THREAD_NOT_JOINED | THREAD_JOINED | THREAD_DETACHED

text \<open>A start routine is a code pointer: null, a function of the caller (named by a
  number), or \<^verbatim>\<open>__do_nothing\<close>, which is static in pthread_create.cpp and so never a
  caller's.\<close>

datatype routine = Null_routine | Caller_routine nat | Do_nothing

datatype Lock = Unlocked | Locked

record 'w pthread_internal_t =
  attr :: "'w pthread_attr_t"
  tid :: int
  cached_pid :: int
  join_state :: ThreadJoinState
  cleanup_stack :: 'w
  start_routine :: routine
  start_routine_arg :: 'w
  startup_handshake_lock :: Lock
  thread_mmap_base :: 'w
  thread_mmap_size :: 'w
  bionic_tls :: 'w

text \<open>The slots of the control block that are filled on every target and read back
  here. (\<^verbatim>\<open>TLS_SLOT_SELF\<close> exists on x86 only, and the DTV slot takes the address of a
  static object; nothing below reads either.)\<close>

record 'w bionic_tcb =
  TLS_SLOT_THREAD_ID :: 'w
  TLS_SLOT_STACK_GUARD :: 'w
  TLS_SLOT_BIONIC_TLS :: 'w

record 'w ThreadMapping =
  mmap_base :: 'w
  mmap_size :: 'w
  static_tls :: 'w
  stack_base :: 'w
  stack_top :: 'w

text \<open>A spawned thread runs beside its creator and reads its bookkeeping structure
  from the memory they share. What it can find there is kept as a history, in program
  order: every store to a bookkeeping structure with the contents it leaves
  (\<open>Store\<close>), and every spawn of a kernel thread with the contents of its structure
  at that moment (\<open>Spawn\<close>).\<close>

datatype 'w shared_event =
    Store 'w "'w pthread_internal_t"
  | Spawn 'w "'w pthread_internal_t"

text \<open>The state thread creation reads and writes: the calling thread's \<^verbatim>\<open>errno\<close>,
  the live mappings (base and length, newest first), the calls made so far, the
  bookkeeping structures and control blocks by address (they are shared with the
  spawned thread), the history of the stores to the structures, the kernel threads
  spawned (thread id, argument, initial stack pointer) and the external thread
  registry.\<close>

record 'w world =
  errno :: int
  mappings :: "('w \<times> 'w) list"
  calls :: "'w call list"
  thread_mem :: "'w \<Rightarrow> 'w pthread_internal_t option"
  tcb_mem :: "'w \<Rightarrow> 'w bionic_tcb option"
  shared :: "'w shared_event list"
  kernel_threads :: "(int \<times> 'w \<times> 'w) list"
  registry :: "'w list"

definition ThreadMapping_empty :: "'a::len word ThreadMapping" where
  "ThreadMapping_empty =
     \<lparr>mmap_base = 0, mmap_size = 0, static_tls = 0, stack_base = 0, stack_top = 0\<rparr>"

section \<open>System calls\<close>

definition record_call :: "'w call \<Rightarrow> 'w world \<Rightarrow> 'w world" where
  "record_call c w = w\<lparr>calls := calls w @ [c]\<rparr>"

text \<open>\<^verbatim>\<open>mmap(nullptr, len, prot, MAP_PRIVATE|MAP_ANONYMOUS|MAP_NORESERVE, -1, 0)\<close>:
  \<open>None\<close> is \<^verbatim>\<open>MAP_FAILED\<close>. The fresh pages read as zero: no structure is stored
  in them (\<open>None\<close> in \<open>thread_mem\<close> and \<open>tcb_mem\<close> reads as the all-zero
  structure).\<close>

definition in_range :: "'a::len word \<Rightarrow> 'a word \<Rightarrow> 'a word \<Rightarrow> bool" where
  "in_range addr len p = (addr \<le> p \<and> p - addr < len)"

definition sys_mmap ::
  "int + 'a::len word \<Rightarrow> 'a word world \<Rightarrow> 'a word \<Rightarrow> prot \<Rightarrow> 'a word world \<times> 'a word option" where
  "sys_mmap ret w len pr =
     (case ret of
        Inl e \<Rightarrow> (record_call (Mmap len pr None) (w\<lparr>errno := e\<rparr>), None)
      | Inr space \<Rightarrow>
          (record_call (Mmap len pr (Some space))
             (w\<lparr>mappings := (space, len) # mappings w,
                thread_mem := (\<lambda>p. if in_range space len p then None else thread_mem w p),
                tcb_mem := (\<lambda>p. if in_range space len p then None else tcb_mem w p)\<rparr>),
           Some space))"

text \<open>\<^verbatim>\<open>mprotect(addr, len, prot)\<close>: true when it succeeded (returned 0).\<close>

definition sys_mprotect :: "int option \<Rightarrow> 'w world \<Rightarrow> 'w \<Rightarrow> 'w \<Rightarrow> prot \<Rightarrow> 'w world \<times> bool" where
  "sys_mprotect ret w addr len pr =
     (case ret of
        Some e \<Rightarrow> (record_call (Mprotect addr len pr False) (w\<lparr>errno := e\<rparr>), False)
      | None \<Rightarrow> (record_call (Mprotect addr len pr True) w, True))"

text \<open>\<^verbatim>\<open>munmap(addr, len)\<close> of a whole mapping: the mapping is released, and the
  structures that lived in it are gone.\<close>

definition sys_munmap :: "'a::len word world \<Rightarrow> 'a word \<Rightarrow> 'a word \<Rightarrow> 'a word world" where
  "sys_munmap w addr len =
     record_call (Munmap addr len)
       (w\<lparr>mappings := remove1 (addr, len) (mappings w),
          thread_mem := (\<lambda>p. if in_range addr len p then None else thread_mem w p),
          tcb_mem := (\<lambda>p. if in_range addr len p then None else tcb_mem w p)\<rparr>)"

text \<open>\<^verbatim>\<open>prctl(PR_SET_VMA, PR_SET_VMA_ANON_NAME, addr, len, name)\<close>; its result is
  ignored by the code.\<close>

definition sys_prctl_name :: "'w world \<Rightarrow> 'w \<Rightarrow> 'w \<Rightarrow> string \<Rightarrow> 'w world" where
  "sys_prctl_name w addr len name = record_call (Prctl_set_vma_anon_name addr len name) w"

text \<open>Modelled from the spec: \<^verbatim>\<open>async_safe_format_log(ANDROID_LOG_WARN, "libc", ...)\<close>
  is the async-signal-safe diagnostic sink, outside pthread_create.cpp. It reports the
  warning and leaves \<^verbatim>\<open>errno\<close> as it found it, which the \<^verbatim>\<open>return errno\<close> that follows
  each warning relies on. The message is the constant part of the format string.\<close>

definition async_safe_format_log :: "'w world \<Rightarrow> string \<Rightarrow> 'w world" where
  "async_safe_format_log w msg = record_call (Log_warn msg) w"

section \<open>The thread's primary mapping\<close>

text \<open>The bound of the random draw for the gap. The code's comment: "Place a randomly
  sized gap above the stack, up to 10% as large as the stack on 32-bit and 50% on 64-bit
  where virtual memory is plentiful."\<close>

definition max_gap_size :: "'a::len word \<Rightarrow> 'a word" where
  "max_gap_size stack_size =
     (if LP64 TYPE('a) then stack_size div 2 else stack_size div 10)"

text \<open>The gap: \<^verbatim>\<open>__BIONIC_ALIGN(arc4random_uniform(max_gap_size), PAGE_SIZE)\<close>. The
  argument is converted to \<^verbatim>\<open>uint32_t\<close>, the result is one, and (\<^verbatim>\<open>PAGE_SIZE\<close> being
  an \<^verbatim>\<open>int\<close> constant) the alignment is computed at that width before it is widened
  to \<^verbatim>\<open>size_t\<close>.\<close>

definition gap_size_of :: "32 word \<Rightarrow> 'a::len word \<Rightarrow> 'a word" where
  "gap_size_of raw stack_size =
     ucast (BIONIC_ALIGN (arc4random_uniform raw (ucast (max_gap_size stack_size))) PAGE_SIZE)"

definition thread_page_size :: "'a::len word libc_globals \<Rightarrow> 'a word" where
  "thread_page_size g = BIONIC_ALIGN (sizeof_pthread_internal_t g) PAGE_SIZE"

text \<open>The five checked additions and the final alignment of \<^verbatim>\<open>mmap_size\<close>;
  \<open>None\<close> where the code returns the empty mapping.\<close>

definition compute_mmap_size ::
  "'a::len word libc_globals \<Rightarrow> 'a word \<Rightarrow> 'a word \<Rightarrow> 'a word \<Rightarrow> 'a word option" where
  "compute_mmap_size g stack_size stack_guard_size gap_size =
     (case add_overflow stack_size stack_guard_size of None \<Rightarrow> None | Some m1 \<Rightarrow>
     (case add_overflow m1 gap_size of None \<Rightarrow> None | Some m2 \<Rightarrow>
     (case add_overflow m2 (thread_page_size g) of None \<Rightarrow> None | Some m3 \<Rightarrow>
     (case add_overflow m3 (layout_size g) of None \<Rightarrow> None | Some m4 \<Rightarrow>
     (case add_overflow m4 PTHREAD_GUARD_SIZE of None \<Rightarrow> None | Some unaligned_size \<Rightarrow>
        (let aligned_size = BIONIC_ALIGN unaligned_size PAGE_SIZE
         in if aligned_size < unaligned_size then None else Some aligned_size))))))"

definition allocate_thread_mapping ::
  "'a::len word libc_globals \<Rightarrow> 'a word env \<Rightarrow> 'a word world \<Rightarrow> 'a word \<Rightarrow> 'a word
     \<Rightarrow> 'a word world \<times> 'a word ThreadMapping" where
  "allocate_thread_mapping g e w stack_size stack_guard_size =
     (let gap_size = gap_size_of (gap_random e) stack_size in
      case compute_mmap_size g stack_size stack_guard_size gap_size of
        None \<Rightarrow> (w, ThreadMapping_empty)
      | Some mmap_sz \<Rightarrow>
     (case sys_mmap (mmap_ret e) w mmap_sz PROT_NONE of
        (w1, None) \<Rightarrow>
          (async_safe_format_log w1
             ''pthread_create failed: couldn't allocate mapped space'',
           ThreadMapping_empty)
      | (w1, Some space) \<Rightarrow>
     (case sys_mprotect (mprotect_stack_ret e) w1 (space + stack_guard_size) stack_size
             PROT_READ_WRITE of
        (w2, False) \<Rightarrow>
          (sys_munmap
             (async_safe_format_log w2
                ''pthread_create failed: couldn't mprotect R+W thread mapping region'')
             space mmap_sz,
           ThreadMapping_empty)
      | (w2, True) \<Rightarrow>
     (let w3 = sys_prctl_name w2 space stack_guard_size ''stack guard'';
          stack_top_guard = space + stack_guard_size + stack_size;
          w4 = sys_prctl_name w3 stack_top_guard gap_size ''stack top guard'';
          thread = space + stack_guard_size + stack_size + gap_size;
          static_tls_space = thread + thread_page_size g in
      case sys_mprotect (mprotect_tls_ret e) w4 thread (thread_page_size g + layout_size g)
             PROT_READ_WRITE of
        (w5, False) \<Rightarrow>
          (sys_munmap
             (async_safe_format_log w5
                ''pthread_create failed: couldn't mprotect R+W thread mapping region'')
             space mmap_sz,
           ThreadMapping_empty)
      | (w5, True) \<Rightarrow>
          (w5,
           \<lparr>mmap_base = space, mmap_size = mmap_sz, static_tls = static_tls_space,
            stack_base = space,
            stack_top =
              BIONIC_ALIGN_DOWN
                (space + stack_guard_size + stack_size
                   - ucast (arc4random_uniform (top_random e)
                              (ucast (sizeof_pthread_internal_t g))))
                16\<rparr>)))))"

section \<open>Allocating the thread\<close>

definition zero_attr :: "'a::len word pthread_attr_t" where
  "zero_attr =
     \<lparr>attr_flags = 0, attr_stack_base = 0, attr_stack_size = 0, attr_guard_size = 0,
      attr_sched_policy = 0, attr_sched_priority = 0\<rparr>"

definition zero_thread :: "'a::len word pthread_internal_t" where
  "zero_thread =
     \<lparr>attr = zero_attr, tid = 0, cached_pid = 0, join_state = THREAD_NOT_JOINED,
      cleanup_stack = 0, start_routine = Null_routine, start_routine_arg = 0,
      startup_handshake_lock = Unlocked, thread_mmap_base = 0, thread_mmap_size = 0,
      bionic_tls = 0\<rparr>"

definition zero_tcb :: "'a::len word bionic_tcb" where
  "zero_tcb = \<lparr>TLS_SLOT_THREAD_ID = 0, TLS_SLOT_STACK_GUARD = 0, TLS_SLOT_BIONIC_TLS = 0\<rparr>"

definition load_thread :: "'a::len word world \<Rightarrow> 'a word \<Rightarrow> 'a word pthread_internal_t" where
  "load_thread w p = (case thread_mem w p of None \<Rightarrow> zero_thread | Some t \<Rightarrow> t)"

text \<open>Every store to a bookkeeping structure goes through \<open>upd_thread\<close>, which
  enters it in the history.\<close>

definition upd_thread ::
  "'a::len word world \<Rightarrow> 'a word \<Rightarrow> ('a word pthread_internal_t \<Rightarrow> 'a word pthread_internal_t)
     \<Rightarrow> 'a word world" where
  "upd_thread w p f =
     w\<lparr>thread_mem := (thread_mem w)(p \<mapsto> f (load_thread w p)),
       shared := shared w @ [Store p (f (load_thread w p))]\<rparr>"

definition load_tcb :: "'a::len word world \<Rightarrow> 'a word \<Rightarrow> 'a word bionic_tcb" where
  "load_tcb w p = (case tcb_mem w p of None \<Rightarrow> zero_tcb | Some t \<Rightarrow> t)"

definition upd_tcb ::
  "'a::len word world \<Rightarrow> 'a word \<Rightarrow> ('a word bionic_tcb \<Rightarrow> 'a word bionic_tcb) \<Rightarrow> 'a word world" where
  "upd_tcb w p f = w\<lparr>tcb_mem := (tcb_mem w)(p \<mapsto> f (load_tcb w p))\<rparr>"

definition init_tcb :: "'a::len word world \<Rightarrow> 'a word \<Rightarrow> 'a word \<Rightarrow> 'a word world" where
  "init_tcb w tcb thread = upd_tcb w tcb (\<lambda>t. t\<lparr>TLS_SLOT_THREAD_ID := thread\<rparr>)"

definition init_tcb_stack_guard ::
  "'a::len word libc_globals \<Rightarrow> 'a word world \<Rightarrow> 'a word \<Rightarrow> 'a word world" where
  "init_tcb_stack_guard g w tcb = upd_tcb w tcb (\<lambda>t. t\<lparr>TLS_SLOT_STACK_GUARD := stack_chk_guard g\<rparr>)"

text \<open>\<^verbatim>\<open>tcb->thread()\<close> reads the thread-id slot.\<close>

definition tcb_thread :: "'a::len word world \<Rightarrow> 'a word \<Rightarrow> 'a word" where
  "tcb_thread w tcb = TLS_SLOT_THREAD_ID (load_tcb w tcb)"

definition init_bionic_tls_ptrs :: "'a::len word world \<Rightarrow> 'a word \<Rightarrow> 'a word \<Rightarrow> 'a word world" where
  "init_bionic_tls_ptrs w tcb tls =
     upd_tcb (upd_thread w (tcb_thread w tcb) (\<lambda>t. t\<lparr>bionic_tls := tls\<rparr>)) tcb
       (\<lambda>t. t\<lparr>TLS_SLOT_BIONIC_TLS := tls\<rparr>)"

text \<open>The part of \<^verbatim>\<open>__allocate_thread\<close> after its two branches have met: the
  bookkeeping structure is located below the static TLS, zeroed unless the pages are
  fresh, the control block is filled, and the attributes and the mapping are recorded.
  It returns the control block and the initial stack pointer. (\<^verbatim>\<open>__init_static_tls\<close>,
  which copies the TLS images, and \<^verbatim>\<open>__init_tcb_dtv\<close> write only memory that is not
  part of the state here.)\<close>

definition allocate_thread_finish ::
  "'a::len word libc_globals \<Rightarrow> 'a word world \<Rightarrow> 'a word pthread_attr_t \<Rightarrow> 'a word ThreadMapping
     \<Rightarrow> 'a word \<Rightarrow> bool \<Rightarrow> 'a word world \<times> (int + 'a word \<times> 'a word)" where
  "allocate_thread_finish g w at mapping stack_top_p stack_clean =
     (let thread = static_tls mapping - BIONIC_ALIGN (sizeof_pthread_internal_t g) PAGE_SIZE;
          w1 = (if \<not> stack_clean then upd_thread w thread (\<lambda>_. zero_thread) else w);
          tcb = static_tls mapping + layout_offset_bionic_tcb g;
          tls = static_tls mapping + layout_offset_bionic_tls g;
          w2 = init_tcb w1 tcb thread;
          w3 = init_tcb_stack_guard g w2 tcb;
          w4 = init_bionic_tls_ptrs w3 tcb tls;
          at1 = at\<lparr>attr_stack_size := stack_top_p - attr_stack_base at\<rparr>;
          w5 = upd_thread w4 thread
                 (\<lambda>t. t\<lparr>attr := at1, thread_mmap_base := mmap_base mapping,
                         thread_mmap_size := mmap_size mapping\<rparr>)
      in (w5, Inr (tcb, stack_top_p)))"

definition allocate_thread ::
  "'a::len word libc_globals \<Rightarrow> 'a word env \<Rightarrow> 'a word world \<Rightarrow> 'a word pthread_attr_t
     \<Rightarrow> 'a word world \<times> (int + 'a word \<times> 'a word)" where
  "allocate_thread g e w at =
     (if attr_stack_base at = 0 then
        (let unaligned_guard_size = attr_guard_size at;
             at1 = at\<lparr>attr_guard_size := BIONIC_ALIGN (attr_guard_size at) PAGE_SIZE\<rparr>
         in if attr_guard_size at1 < unaligned_guard_size then (w, Inl EAGAIN)
            else
              (case allocate_thread_mapping g e w (attr_stack_size at1) (attr_guard_size at1) of
                 (w1, mapping) \<Rightarrow>
                   if mmap_base mapping = 0 then (w1, Inl EAGAIN)
                   else allocate_thread_finish g w1
                          (at1\<lparr>attr_stack_base := stack_base mapping\<rparr>) mapping
                          (stack_top mapping) True))
      else
        (case allocate_thread_mapping g e w 0 PTHREAD_GUARD_SIZE of
           (w1, mapping) \<Rightarrow>
             if mmap_base mapping = 0 then (w1, Inl EAGAIN)
             else allocate_thread_finish g w1 at mapping
                    (attr_stack_base at + attr_stack_size at) False))"

section \<open>Scheduling\<close>

text \<open>\<^verbatim>\<open>sched_getscheduler(0)\<close>: the policy, or -1 with errno set.\<close>

definition sys_sched_getscheduler :: "int + nat \<Rightarrow> 'w world \<Rightarrow> 'w world \<times> int" where
  "sys_sched_getscheduler ret w =
     (case ret of
        Inl e \<Rightarrow> (record_call (Sched_getscheduler (-1)) (w\<lparr>errno := e\<rparr>), -1)
      | Inr policy \<Rightarrow> (record_call (Sched_getscheduler (int policy)) w, int policy))"

text \<open>\<^verbatim>\<open>sched_getparam(0, &param)\<close>: 0 and the priority it wrote, or -1 with errno
  set and \<^verbatim>\<open>param\<close> as it was.\<close>

definition sys_sched_getparam :: "int + int \<Rightarrow> 'w world \<Rightarrow> int \<Rightarrow> 'w world \<times> int \<times> int" where
  "sys_sched_getparam ret w param =
     (case ret of
        Inl e \<Rightarrow> (record_call (Sched_getparam (-1)) (w\<lparr>errno := e\<rparr>), -1, param)
      | Inr priority \<Rightarrow> (record_call (Sched_getparam 0) w, 0, priority))"

text \<open>\<^verbatim>\<open>sched_setscheduler(tid, policy, &param)\<close>: 0, or -1 with errno set.\<close>

definition sys_sched_setscheduler ::
  "int option \<Rightarrow> 'w world \<Rightarrow> int \<Rightarrow> int \<Rightarrow> int \<Rightarrow> 'w world \<times> int" where
  "sys_sched_setscheduler ret w t policy priority =
     (case ret of
        Some e \<Rightarrow> (record_call (Sched_setscheduler t policy priority (-1)) (w\<lparr>errno := e\<rparr>), -1)
      | None \<Rightarrow> (record_call (Sched_setscheduler t policy priority 0) w, 0))"

text \<open>The end of \<^verbatim>\<open>__init_thread\<close>, where its branches meet: the compatibility rule
  for attributes with neither flag, then the explicit call.\<close>

definition init_thread_apply ::
  "'a::len word env \<Rightarrow> 'a word world \<Rightarrow> 'a word \<Rightarrow> bool \<Rightarrow> int \<Rightarrow> int \<Rightarrow> 'a word world \<times> int" where
  "init_thread_apply e w thread need_set0 policy priority =
     (let t = load_thread w thread;
          need_set =
            (if attr_flags (attr t) AND (PTHREAD_ATTR_FLAG_INHERIT OR PTHREAD_ATTR_FLAG_EXPLICIT) = 0
             then attr_sched_policy (attr t) \<noteq> SCHED_NORMAL else need_set0)
      in if need_set then
           (case sys_sched_setscheduler (sched_setscheduler_ret e) w (tid t) policy priority of
              (w1, r) \<Rightarrow>
                if r = -1 then
                  (let w2 = async_safe_format_log w1
                              ''pthread_create sched_setscheduler call failed''
                   in if LP64 TYPE('a) then (w2, errno w2) else (w2, 0))
                else (w1, 0))
         else (w, 0))"

text \<open>\<^verbatim>\<open>__init_thread\<close>. The local \<^verbatim>\<open>param\<close> is not initialised in the C code; it
  is 0 here, and it is read only after it has been written.\<close>

definition init_thread :: "'a::len word env \<Rightarrow> 'a word world \<Rightarrow> 'a word \<Rightarrow> 'a word world \<times> int" where
  "init_thread e w thread =
     (let w0 = upd_thread w thread
                 (\<lambda>t. t\<lparr>cleanup_stack := 0,
                         join_state :=
                           (if attr_flags (attr t) AND PTHREAD_ATTR_FLAG_DETACHED = 0
                            then THREAD_NOT_JOINED else THREAD_DETACHED)\<rparr>);
          t = load_thread w0 thread
      in if attr_flags (attr t) AND PTHREAD_ATTR_FLAG_INHERIT \<noteq> 0 then
           (case sys_sched_getscheduler (sched_getscheduler_ret e) w0 of
              (w1, policy) \<Rightarrow>
                (let need_set = (policy AND SCHED_RESET_ON_FORK \<noteq> 0)
                 in if need_set then
                      (if policy = -1 then
                         (let w2 = async_safe_format_log w1
                                     ''pthread_create sched_getscheduler failed''
                          in (w2, errno w2))
                       else
                         (case sys_sched_getparam (sched_getparam_ret e) w1 0 of
                            (w2, r, priority) \<Rightarrow>
                              if r = -1 then
                                (let w3 = async_safe_format_log w2
                                            ''pthread_create sched_getparam failed''
                                 in (w3, errno w3))
                              else init_thread_apply e w2 thread need_set policy priority))
                    else init_thread_apply e w1 thread need_set policy 0))
         else init_thread_apply e w0 thread True (attr_sched_policy (attr t))
                (attr_sched_priority (attr t)))"

section \<open>Creating the thread\<close>

text \<open>\<^verbatim>\<open>clone(__pthread_start, child_stack, flags, thread, &thread->tid, tls,
  &thread->tid)\<close>: -1 with errno set, or the new thread's id; the kernel then has
  written the id to \<^verbatim>\<open>thread->tid\<close> (\<^verbatim>\<open>CLONE_PARENT_SETTID\<close>) and has a thread
  that starts in \<^verbatim>\<open>__pthread_start(thread)\<close> on \<open>child_stack\<close>. From this moment
  the new thread runs: the spawn is entered in the history with the structure as the
  call found it.\<close>

definition sys_clone ::
  "int + nat \<Rightarrow> 'a::len word world \<Rightarrow> 'a word \<Rightarrow> 'a word \<Rightarrow> 'a word world \<times> int" where
  "sys_clone ret w child_stack thread =
     (case ret of
        Inl e \<Rightarrow> (record_call (Clone child_stack thread (-1)) (w\<lparr>errno := e\<rparr>), -1)
      | Inr new_tid \<Rightarrow>
          (let w1 = upd_thread w thread (\<lambda>t. t\<lparr>tid := int new_tid\<rparr>)
           in (record_call (Clone child_stack thread (int new_tid))
                 (w1\<lparr>kernel_threads := (int new_tid, thread, child_stack) # kernel_threads w,
                     shared := shared w1 @ [Spawn thread (load_thread w1 thread)]\<rparr>),
               int new_tid)))"

text \<open>Modelled from the spec: \<^verbatim>\<open>__pthread_internal_add\<close> belongs to the thread
  registry, outside this file: it registers the thread and returns the externally
  visible handle, which is the structure's address.\<close>

definition pthread_internal_add :: "'w world \<Rightarrow> 'w \<Rightarrow> 'w world \<times> 'w" where
  "pthread_internal_add w thread =
     (record_call (Pthread_internal_add thread) (w\<lparr>registry := thread # registry w\<rparr>), thread)"

text \<open>The handshake lock of a thread (\<^verbatim>\<open>Lock::init\<close>, \<^verbatim>\<open>lock\<close>, \<^verbatim>\<open>unlock\<close>). The
  creator locks a lock it has just initialised, so its \<^verbatim>\<open>lock()\<close> never waits.\<close>

definition lock_init :: "'a::len word world \<Rightarrow> 'a word \<Rightarrow> 'a word world" where
  "lock_init w thread = upd_thread w thread (\<lambda>t. t\<lparr>startup_handshake_lock := Unlocked\<rparr>)"

definition lock_lock :: "'a::len word world \<Rightarrow> 'a word \<Rightarrow> 'a word world" where
  "lock_lock w thread =
     record_call (Lock_lock thread)
       (upd_thread w thread (\<lambda>t. t\<lparr>startup_handshake_lock := Locked\<rparr>))"

definition lock_unlock :: "'a::len word world \<Rightarrow> 'a word \<Rightarrow> 'a word world" where
  "lock_unlock w thread =
     record_call (Lock_unlock thread)
       (upd_thread w thread (\<lambda>t. t\<lparr>startup_handshake_lock := Unlocked\<rparr>))"

text \<open>The spawned thread, \<^verbatim>\<open>__pthread_start(thread)\<close>: it takes the handshake lock
  first, so while the creator holds the lock it has called nothing (\<open>None\<close>); once
  the lock is free it sets up its additional stacks and calls
  \<^verbatim>\<open>thread->start_routine\<close> as it finds it. Only the routine it calls is modelled.\<close>

definition pthread_start :: "'a::len word world \<Rightarrow> 'a word \<Rightarrow> routine option" where
  "pthread_start w thread =
     (let t = load_thread w thread
      in if startup_handshake_lock t = Locked then None else Some (start_routine t))"

text \<open>\<^verbatim>\<open>pthread_create\<close> up to and including \<^verbatim>\<open>clone\<close>: the result of a failed
  allocation, or the bookkeeping structure and what \<^verbatim>\<open>clone\<close> returned.\<close>

definition pthread_create_spawn ::
  "'a::len word libc_globals \<Rightarrow> 'a word env \<Rightarrow> 'a word world \<Rightarrow> 'a word pthread_attr_t option
     \<Rightarrow> routine \<Rightarrow> 'a word \<Rightarrow> 'a word world \<times> (int + 'a word \<times> int)" where
  "pthread_create_spawn g e w attr_p start_routine_p arg =
     (let thread_attr = (case attr_p of None \<Rightarrow> pthread_attr_init g | Some a \<Rightarrow> a)
      in case allocate_thread g e w thread_attr of
           (w1, Inl result) \<Rightarrow> (w1, Inl result)
         | (w1, Inr (tcb, child_stack)) \<Rightarrow>
             (let thread = tcb_thread w1 tcb;
                  w2 = lock_lock (lock_init w1 thread) thread;
                  w3 = upd_thread w2 thread
                         (\<lambda>t. t\<lparr>start_routine := start_routine_p, start_routine_arg := arg,
                                 cached_pid := getpid_ret e\<rparr>)
              in case sys_clone (clone_ret e) w3 child_stack thread of
                   (w4, rc) \<Rightarrow> (w4, Inr (thread, rc))))"

text \<open>The body of \<^verbatim>\<open>pthread_create\<close>: the world, the return value, and the handle
  written to \<^verbatim>\<open>*thread_out\<close> (\<open>None\<close> when nothing is written).\<close>

definition pthread_create_body ::
  "'a::len word libc_globals \<Rightarrow> 'a word env \<Rightarrow> 'a word world \<Rightarrow> 'a word pthread_attr_t option
     \<Rightarrow> routine \<Rightarrow> 'a word \<Rightarrow> 'a word world \<times> int \<times> 'a word option" where
  "pthread_create_body g e w attr_p start_routine_p arg =
     (case pthread_create_spawn g e w attr_p start_routine_p arg of
        (w1, Inl result) \<Rightarrow> (w1, result, None)
      | (w3, Inr (thread, rc)) \<Rightarrow>
          if rc = -1 then
            (let clone_errno = errno w3;
                 w4 = lock_unlock w3 thread;
                 t = load_thread w4 thread;
                 w5 = (if thread_mmap_size t \<noteq> 0
                       then sys_munmap w4 (thread_mmap_base t) (thread_mmap_size t) else w4);
                 w6 = async_safe_format_log w5 ''pthread_create failed: clone failed''
             in (w6, clone_errno, None))
          else
            (case init_thread e w3 thread of
               (w4, init_errno) \<Rightarrow>
                 if init_errno \<noteq> 0 then
                   (let w5 = upd_thread w4 thread (\<lambda>t. t\<lparr>join_state := THREAD_DETACHED\<rparr>);
                        w6 = fst (pthread_internal_add w5 thread);
                        w7 = upd_thread w6 thread (\<lambda>t. t\<lparr>start_routine := Do_nothing\<rparr>);
                        w8 = lock_unlock w7 thread
                    in (w8, init_errno, None))
                 else
                   (case pthread_internal_add w4 thread of
                      (w5, handle) \<Rightarrow> (lock_unlock w5 thread, 0, Some handle))))"

text \<open>Modelled from the spec: the class \<^verbatim>\<open>ErrnoRestorer\<close> (private/ErrnoRestorer.h) is
  not part of pthread_create.cpp. An object of it saves errno where it is declared and
  writes the saved value back where it goes out of scope. \<^verbatim>\<open>pthread_create\<close> declares
  one as its first statement, so errno is written back on every return. (The
  \<^verbatim>\<open>ScopedTrace\<close> declared next only reports to the tracing sink.)\<close>

definition pthread_create ::
  "'a::len word libc_globals \<Rightarrow> 'a word env \<Rightarrow> 'a word world \<Rightarrow> 'a word pthread_attr_t option
     \<Rightarrow> routine \<Rightarrow> 'a word \<Rightarrow> 'a word world \<times> int \<times> 'a word option" where
  "pthread_create g e w attr_p start_routine_p arg =
     (let saved_errno = errno w
      in case pthread_create_body g e w attr_p start_routine_p arg of
           (w1, result, thread_out) \<Rightarrow> (w1\<lparr>errno := saved_errno\<rparr>, result, thread_out))"

section \<open>Quantities the properties speak about\<close>

text \<open>Rounding a byte count up to whole pages, on the natural numbers.\<close>

definition round_up_page :: "nat \<Rightarrow> nat" where
  "round_up_page n = (n + 4095) div 4096 * 4096"

text \<open>The sum the mapping is sized from, on the natural numbers: stack, stack guard,
  gap, the pages of the bookkeeping structure, static TLS and the tail guard.\<close>

definition requested_size ::
  "'a::len word libc_globals \<Rightarrow> 'a word \<Rightarrow> 'a word \<Rightarrow> 'a word \<Rightarrow> nat" where
  "requested_size g stack_size stack_guard_size gap_size =
     unat stack_size + unat stack_guard_size + unat gap_size + unat (thread_page_size g)
       + unat (layout_size g) + unat (PTHREAD_GUARD_SIZE :: 'a word)"

text \<open>The calls made between two states of the world.\<close>

definition new_calls :: "'w world \<Rightarrow> 'w world \<Rightarrow> 'w call list" where
  "new_calls w w' = drop (length (calls w)) (calls w')"

text \<open>The entries of the history made between two states of the world.\<close>

definition new_shared :: "'w world \<Rightarrow> 'w world \<Rightarrow> 'w shared_event list" where
  "new_shared w w' = drop (length (shared w)) (shared w')"

text \<open>What a spawned thread can find in its bookkeeping structure, in order: the
  contents at its spawn, then the contents after each later store to it.\<close>

fun stores_to :: "'w \<Rightarrow> 'w shared_event list \<Rightarrow> 'w pthread_internal_t list" where
  "stores_to th [] = []"
| "stores_to th (Store p t # es) = (if p = th then t # stores_to th es else stores_to th es)"
| "stores_to th (Spawn p t # es) = stores_to th es"

fun child_view :: "'w \<Rightarrow> 'w shared_event list \<Rightarrow> 'w pthread_internal_t list" where
  "child_view th [] = []"
| "child_view th (Store p t # es) = child_view th es"
| "child_view th (Spawn p t # es) = (if p = th then t # stores_to th es else child_view th es)"

text \<open>A list of regions (offset, size) tiles the bytes from \<open>a\<close> up to \<open>b\<close>: each
  begins where the one before ends, so they are in ascending order and no two overlap.\<close>

fun tiles :: "nat \<Rightarrow> (nat \<times> nat) list \<Rightarrow> nat \<Rightarrow> bool" where
  "tiles a [] b = (a = b)"
| "tiles a ((off, n) # rs) b = (off = a \<and> tiles (off + n) rs b)"

text \<open>The six sub-regions of a mapping, as offsets from its base and sizes: stack guard,
  usable stack, gap, bookkeeping structure, static TLS, tail guard. The offsets are the
  pointer sums the code forms (\<^verbatim>\<open>space + stack_guard_size\<close>, \<^verbatim>\<open>stack_top_guard\<close>,
  \<^verbatim>\<open>thread\<close>, \<^verbatim>\<open>static_tls_space\<close>), read as numbers. Access is granted page by
  page, so the static TLS region is the whole pages that hold the \<^verbatim>\<open>layout.size()\<close>
  bytes, and the tail guard is what is left of the mapping above them.\<close>

definition sub_regions ::
  "'a::len word libc_globals \<Rightarrow> 'a word \<Rightarrow> 'a word \<Rightarrow> 'a word \<Rightarrow> 'a word \<Rightarrow> (nat \<times> nat) list" where
  "sub_regions g stack_size stack_guard_size gap_size mmap_sz =
     (let stack = unat stack_guard_size;
          stack_top_guard = unat (stack_guard_size + stack_size);
          thread = unat (stack_guard_size + stack_size + gap_size);
          static_tls_space = unat (stack_guard_size + stack_size + gap_size + thread_page_size g);
          tail_guard = static_tls_space + round_up_page (unat (layout_size g))
      in [(0, unat stack_guard_size),
          (stack, unat stack_size),
          (stack_top_guard, unat gap_size),
          (thread, unat (thread_page_size g)),
          (static_tls_space, round_up_page (unat (layout_size g))),
          (tail_guard, unat mmap_sz - tail_guard)])"

text \<open>The two fields \<^verbatim>\<open>__init_thread\<close> writes before it turns to scheduling.\<close>

definition init_thread_fields ::
  "'a::len word pthread_internal_t \<Rightarrow> 'a word pthread_internal_t" where
  "init_thread_fields t =
     t\<lparr>cleanup_stack := 0,
       join_state := (if attr_flags (attr t) AND PTHREAD_ATTR_FLAG_DETACHED = 0
                      then THREAD_NOT_JOINED else THREAD_DETACHED)\<rparr>"

section \<open>Example runs\<close>

text \<open>A process with no mapping of interest yet and errno 7; a C library whose
  bookkeeping structure takes 712 bytes and whose static TLS takes 12352; an operating
  system where every call succeeds. They fit both widths.\<close>

definition world0 :: "'a::len word world" where
  "world0 =
     \<lparr>errno = 7, mappings = [], calls = [], thread_mem = (\<lambda>_. None), tcb_mem = (\<lambda>_. None),
      shared = [], kernel_threads = [], registry = []\<rparr>"

definition attr0 :: "'a::len word pthread_attr_t" where
  "attr0 =
     \<lparr>attr_flags = 0, attr_stack_base = 0, attr_stack_size = 1015808, attr_guard_size = 4096,
      attr_sched_policy = 0, attr_sched_priority = 0\<rparr>"

definition globals0 :: "'a::len word libc_globals" where
  "globals0 =
     \<lparr>pthread_attr_init = attr0, sizeof_pthread_internal_t = 712, layout_size = 12352,
      layout_offset_bionic_tcb = 0, layout_offset_bionic_tls = 64,
      stack_chk_guard = 0x5eed\<rparr>"

definition env0 :: "'a::len word env" where
  "env0 =
     \<lparr>gap_random = 123456, top_random = 100, mmap_ret = Inr 0x70000000,
      mprotect_stack_ret = None, mprotect_tls_ret = None, clone_ret = Inr 4242,
      sched_getscheduler_ret = Inr 0, sched_getparam_ret = Inr 0,
      sched_setscheduler_ret = None, getpid_ret = 4000\<rparr>"

section \<open>Evaluation rules\<close>

lemmas macro_defs =
  LP64_def PAGE_SIZE_def PTHREAD_GUARD_SIZE_def BIONIC_ALIGN_def BIONIC_ALIGN_DOWN_def
  add_overflow_def arc4random_uniform_def max_gap_size_def gap_size_of_def
  thread_page_size_def compute_mmap_size_def ThreadMapping_empty_def
  PTHREAD_ATTR_FLAG_DETACHED_def PTHREAD_ATTR_FLAG_INHERIT_def PTHREAD_ATTR_FLAG_EXPLICIT_def
  SCHED_NORMAL_def SCHED_RESET_ON_FORK_def EAGAIN_def

lemmas sys_defs =
  record_call_def sys_mmap_def sys_mprotect_def sys_munmap_def sys_prctl_name_def
  async_safe_format_log_def sys_sched_getscheduler_def sys_sched_getparam_def
  sys_sched_setscheduler_def sys_clone_def pthread_internal_add_def in_range_def

lemmas mem_defs =
  zero_attr_def zero_thread_def zero_tcb_def load_thread_def upd_thread_def load_tcb_def
  upd_tcb_def init_tcb_def init_tcb_stack_guard_def tcb_thread_def init_bionic_tls_ptrs_def
  lock_init_def lock_lock_def lock_unlock_def

lemmas code_defs =
  allocate_thread_mapping_def allocate_thread_finish_def allocate_thread_def
  init_thread_apply_def init_thread_def pthread_start_def pthread_create_spawn_def
  pthread_create_body_def pthread_create_def

lemmas example_defs = world0_def attr0_def globals0_def env0_def new_calls_def new_shared_def

lemmas run_defs = code_defs macro_defs sys_defs mem_defs example_defs Let_def

section \<open>Page arithmetic on words\<close>

lemma and_not_mask_eq:
  "(x :: 'a::len word) AND NOT (mask n) = push_bit n (drop_bit n x)"
  by (rule bit_eqI) (auto simp add: bit_simps)

lemma unat_and_not_mask:
  "unat ((x :: 'a::len word) AND NOT (mask n)) = unat x div 2 ^ n * 2 ^ n"
proof -
  have le: "unat x div 2 ^ n * 2 ^ n \<le> unat x"
    by simp
  have "unat x < 2 ^ LENGTH('a)"
    by (rule unsigned_less)
  with le have lt: "unat x div 2 ^ n * 2 ^ n < 2 ^ LENGTH('a)"
    by linarith
  have "unat (push_bit n (drop_bit n x)) = take_bit LENGTH('a) (push_bit n (unat (drop_bit n x)))"
    by (simp add: unsigned_push_bit_eq)
  also have "\<dots> = (unat x div 2 ^ n * 2 ^ n) mod 2 ^ LENGTH('a)"
    by (simp only: unat_drop_bit_eq) (simp add: drop_bit_eq_div push_bit_eq_mult take_bit_eq_mod)
  also have "\<dots> = unat x div 2 ^ n * 2 ^ n"
    using lt by simp
  finally show ?thesis
    by (simp add: and_not_mask_eq)
qed

lemma page_minus_one: "(4096 - 1 :: 'a::len word) = mask 12"
  by (simp add: mask_eq_exp_minus_1)

lemma pow_len_page:
  assumes "12 < LENGTH('a::len)"
  shows "\<exists>k. (2::nat) ^ LENGTH('a) = 4096 * k \<and> 2 \<le> k"
proof -
  obtain d where d: "LENGTH('a) = 12 + Suc d"
    using assms less_imp_Suc_add by (metis add_Suc_right)
  have "(2::nat) ^ LENGTH('a) = 4096 * 2 ^ Suc d"
    by (simp add: d power_add)
  moreover have "(2::nat) \<le> 2 ^ Suc d"
    by simp
  ultimately show ?thesis by blast
qed

lemma page_lt_pow_len:
  "12 < LENGTH('a::len) \<Longrightarrow> (8192::nat) \<le> 2 ^ LENGTH('a)"
  using pow_len_page [where 'a='a] by auto

lemma unat_4095:
  assumes "12 < LENGTH('a::len)"
  shows "unat (4095 :: 'a word) = 4095"
proof -
  have "(4095::nat) < 2 ^ LENGTH('a)"
    using page_lt_pow_len [OF assms] by linarith
  then show ?thesis
    by (simp add: take_bit_nat_eq_self)
qed

lemma unat_PAGE_SIZE:
  assumes "12 < LENGTH('a::len)"
  shows "unat (PAGE_SIZE :: 'a word) = 4096"
proof -
  have "(4096::nat) < 2 ^ LENGTH('a)"
    using page_lt_pow_len [OF assms] by linarith
  then show ?thesis
    by (simp add: PAGE_SIZE_def take_bit_nat_eq_self)
qed

lemma BIONIC_ALIGN_page:
  "BIONIC_ALIGN (v :: 'a::len word) PAGE_SIZE = (v + 4095) AND NOT (mask 12)"
proof -
  have "v + 4096 - 1 = v + 4095"
    by simp
  then show ?thesis
    unfolding BIONIC_ALIGN_def PAGE_SIZE_def page_minus_one by (simp add: add.commute)
qed

lemma unat_BIONIC_ALIGN:
  assumes "12 < LENGTH('a::len)"
  shows "unat (BIONIC_ALIGN (v :: 'a word) PAGE_SIZE) =
           ((unat v + 4095) mod 2 ^ LENGTH('a)) div 4096 * 4096"
proof -
  have "unat (v + 4095) = (unat v + 4095) mod 2 ^ LENGTH('a)"
    unfolding unat_word_ariths unat_4095 [OF assms] ..
  then show ?thesis
    by (simp only: BIONIC_ALIGN_page unat_and_not_mask) simp
qed

lemma round_up_page_ge: "n \<le> round_up_page n"
proof -
  have "(n + 4095) div 4096 * 4096 + (n + 4095) mod 4096 = n + 4095"
    by (rule div_mult_mod_eq)
  moreover have "(n + 4095) mod 4096 < 4096"
    by simp
  ultimately show ?thesis
    unfolding round_up_page_def by linarith
qed

lemma round_up_page_le: "round_up_page n \<le> n + 4095"
  unfolding round_up_page_def by (rule div_times_less_eq_dividend)

lemma round_up_page_dvd: "4096 dvd round_up_page n"
  unfolding round_up_page_def by simp

lemma add_overflow_None:
  "2 ^ LENGTH('a) \<le> unat a + unat b \<Longrightarrow> add_overflow (a :: 'a::len word) b = None"
  by (simp add: add_overflow_def)

lemma add_overflow_Some:
  "unat a + unat b < 2 ^ LENGTH('a) \<Longrightarrow> add_overflow (a :: 'a::len word) b = Some (a + b)"
  by (simp add: add_overflow_def)

lemma unat_add_no_overflow:
  "unat a + unat b < 2 ^ LENGTH('a) \<Longrightarrow> unat ((a :: 'a::len word) + b) = unat a + unat b"
  by (simp add: unat_add_lem)

lemma align_no_wrap:
  assumes "12 < LENGTH('a::len)" and "unat (u :: 'a word) + 4095 < 2 ^ LENGTH('a)"
  shows "unat (BIONIC_ALIGN u PAGE_SIZE) = round_up_page (unat u)"
    and "\<not> BIONIC_ALIGN u PAGE_SIZE < u"
proof -
  show eq: "unat (BIONIC_ALIGN u PAGE_SIZE) = round_up_page (unat u)"
    using assms(2) by (simp add: unat_BIONIC_ALIGN [OF assms(1)] round_up_page_def)
  have "unat u \<le> round_up_page (unat u)"
    by (rule round_up_page_ge)
  then show "\<not> BIONIC_ALIGN u PAGE_SIZE < u"
    by (simp add: word_less_nat_alt eq)
qed

lemma align_wrap:
  assumes "12 < LENGTH('a::len)" and "2 ^ LENGTH('a) \<le> unat (u :: 'a word) + 4095"
  shows "BIONIC_ALIGN u PAGE_SIZE < u"
proof -
  define M :: nat where "M = 2 ^ LENGTH('a)"
  have M: "8192 \<le> M"
    unfolding M_def by (rule page_lt_pow_len [OF assms(1)])
  have u: "unat u < M"
    unfolding M_def by (rule unsigned_less)
  have "(unat u + 4095) mod M = unat u + 4095 - M"
    using assms(2) u M by (simp add: M_def [symmetric] mod_if)
  then have "unat (BIONIC_ALIGN u PAGE_SIZE) = (unat u + 4095 - M) div 4096 * 4096"
    by (simp add: unat_BIONIC_ALIGN [OF assms(1)] M_def)
  moreover have "(unat u + 4095 - M) div 4096 * 4096 \<le> unat u + 4095 - M"
    by simp
  moreover have "unat u + 4095 - M < unat u"
    using assms(2) u M by (simp add: M_def [symmetric])
  ultimately show ?thesis
    by (simp add: word_less_nat_alt)
qed

lemma round_up_page_overflow:
  assumes "12 < LENGTH('a::len)" and "2 ^ LENGTH('a) \<le> n + 4095"
  shows "2 ^ LENGTH('a) \<le> round_up_page n"
proof -
  obtain k where k: "(2::nat) ^ LENGTH('a) = 4096 * k"
    using pow_len_page [OF assms(1)] by blast
  from assms(2) have "4096 * k \<le> n + 4095"
    by (simp add: k)
  then have "(4096 * k) div 4096 \<le> (n + 4095) div 4096"
    by (rule div_le_mono)
  then have "k \<le> (n + 4095) div 4096"
    by simp
  then have "4096 * k \<le> (n + 4095) div 4096 * 4096"
    by simp
  then show ?thesis
    by (simp add: k round_up_page_def)
qed

lemma compute_mmap_size_eq:
  assumes len: "12 < LENGTH('a::len)"
  shows "compute_mmap_size g (s :: 'a word) gd gap =
           (if round_up_page (requested_size g s gd gap) < 2 ^ LENGTH('a)
            then Some (of_nat (round_up_page (requested_size g s gd gap))) else None)"
proof (cases "requested_size g s gd gap + 4095 < 2 ^ LENGTH('a)")
  case True
  define u where "u = s + gd + gap + thread_page_size g + layout_size g + PTHREAD_GUARD_SIZE"
  from True have 1: "unat s + unat gd < 2 ^ LENGTH('a)"
    by (simp add: requested_size_def)
  have u1: "unat (s + gd) = unat s + unat gd"
    by (rule unat_add_no_overflow [OF 1])
  from True have 2: "unat (s + gd) + unat gap < 2 ^ LENGTH('a)"
    by (simp add: requested_size_def u1)
  have u2: "unat (s + gd + gap) = unat s + unat gd + unat gap"
    using unat_add_no_overflow [OF 2] by (simp add: u1)
  from True have 3: "unat (s + gd + gap) + unat (thread_page_size g) < 2 ^ LENGTH('a)"
    by (simp add: requested_size_def u2)
  have u3: "unat (s + gd + gap + thread_page_size g)
              = unat s + unat gd + unat gap + unat (thread_page_size g)"
    using unat_add_no_overflow [OF 3] by (simp add: u2)
  from True have 4: "unat (s + gd + gap + thread_page_size g) + unat (layout_size g)
                       < 2 ^ LENGTH('a)"
    by (simp add: requested_size_def u3)
  have u4: "unat (s + gd + gap + thread_page_size g + layout_size g)
              = unat s + unat gd + unat gap + unat (thread_page_size g) + unat (layout_size g)"
    using unat_add_no_overflow [OF 4] by (simp add: u3)
  from True have 5: "unat (s + gd + gap + thread_page_size g + layout_size g)
                       + unat (PTHREAD_GUARD_SIZE :: 'a word) < 2 ^ LENGTH('a)"
    by (simp add: requested_size_def u4)
  have u5: "unat u = requested_size g s gd gap"
    using unat_add_no_overflow [OF 5] by (simp add: u4 u_def requested_size_def)
  from True have 6: "unat u + 4095 < 2 ^ LENGTH('a)"
    by (simp add: u5)
  have al: "unat (BIONIC_ALIGN u PAGE_SIZE) = round_up_page (requested_size g s gd gap)"
    using align_no_wrap(1) [OF len 6] by (simp add: u5)
  have nlt: "\<not> BIONIC_ALIGN u PAGE_SIZE < u"
    by (rule align_no_wrap(2) [OF len 6])
  have "compute_mmap_size g s gd gap = Some (BIONIC_ALIGN u PAGE_SIZE)"
    unfolding compute_mmap_size_def
    by (simp add: add_overflow_Some [OF 1] add_overflow_Some [OF 2] add_overflow_Some [OF 3]
        add_overflow_Some [OF 4] add_overflow_Some [OF 5] nlt flip: u_def)
  moreover have "BIONIC_ALIGN u PAGE_SIZE = of_nat (round_up_page (requested_size g s gd gap))"
    using al by (metis of_nat_unat ucast_id)
  moreover have "round_up_page (requested_size g s gd gap) < 2 ^ LENGTH('a)"
    using True round_up_page_le [of "requested_size g s gd gap"] by linarith
  ultimately show ?thesis by simp
next
  case False
  then have big: "2 ^ LENGTH('a) \<le> round_up_page (requested_size g s gd gap)"
    using round_up_page_overflow [OF len, of "requested_size g s gd gap"] by simp
  have "compute_mmap_size g s gd gap = None"
  proof (cases "unat s + unat gd < 2 ^ LENGTH('a)")
    case False
    then show ?thesis
      by (simp add: compute_mmap_size_def add_overflow_def)
  next
    case 1: True
    have u1: "unat (s + gd) = unat s + unat gd"
      by (rule unat_add_no_overflow [OF 1])
    show ?thesis
    proof (cases "unat (s + gd) + unat gap < 2 ^ LENGTH('a)")
      case False
      then show ?thesis
        by (simp add: compute_mmap_size_def add_overflow_def)
    next
      case 2: True
      have u2: "unat (s + gd + gap) = unat s + unat gd + unat gap"
        using unat_add_no_overflow [OF 2] by (simp add: u1)
      show ?thesis
      proof (cases "unat (s + gd + gap) + unat (thread_page_size g) < 2 ^ LENGTH('a)")
        case False
        then show ?thesis
          by (simp add: compute_mmap_size_def add_overflow_def)
      next
        case 3: True
        have u3: "unat (s + gd + gap + thread_page_size g)
              = unat s + unat gd + unat gap + unat (thread_page_size g)"
          using unat_add_no_overflow [OF 3] by (simp add: u2)
        show ?thesis
        proof (cases "unat (s + gd + gap + thread_page_size g) + unat (layout_size g)
                       < 2 ^ LENGTH('a)")
          case False
          then show ?thesis
            by (simp add: compute_mmap_size_def add_overflow_def)
        next
          case 4: True
          have u4: "unat (s + gd + gap + thread_page_size g + layout_size g)
              = unat s + unat gd + unat gap + unat (thread_page_size g) + unat (layout_size g)"
            using unat_add_no_overflow [OF 4] by (simp add: u3)
          show ?thesis
          proof (cases "unat (s + gd + gap + thread_page_size g + layout_size g)
                       + unat (PTHREAD_GUARD_SIZE :: 'a word) < 2 ^ LENGTH('a)")
            case False
            then show ?thesis
              by (simp add: compute_mmap_size_def add_overflow_def)
          next
            case 5: True
            define u where
              "u = s + gd + gap + thread_page_size g + layout_size g + PTHREAD_GUARD_SIZE"
            have u5: "unat u = requested_size g s gd gap"
              using unat_add_no_overflow [OF 5] by (simp add: u4 u_def requested_size_def)
            have "2 ^ LENGTH('a) \<le> unat u + 4095"
              using \<open>\<not> requested_size g s gd gap + 4095 < 2 ^ LENGTH('a)\<close> by (simp add: u5)
            then have "BIONIC_ALIGN u PAGE_SIZE < u"
              by (rule align_wrap [OF len])
            then show ?thesis
              unfolding compute_mmap_size_def
              by (simp add: add_overflow_Some [OF 1] add_overflow_Some [OF 2]
                  add_overflow_Some [OF 3] add_overflow_Some [OF 4] add_overflow_Some [OF 5]
                  flip: u_def)
          qed
        qed
      qed
    qed
  qed
  with big show ?thesis by simp
qed

section \<open>The paths of the mapping allocation\<close>

lemma new_calls_append [simp]: "new_calls w (w'\<lparr>calls := calls w @ cs\<rparr>) = cs"
  by (simp add: new_calls_def)

lemma new_calls_same [simp]: "new_calls w w = []"
  by (simp add: new_calls_def)

lemma allocate_thread_mapping_overflow:
  "compute_mmap_size g s gd (gap_size_of (gap_random e) s) = None
   \<Longrightarrow> allocate_thread_mapping g e w s gd = (w, ThreadMapping_empty)"
  by (simp add: allocate_thread_mapping_def)

lemma allocate_thread_mapping_mmap_failed:
  "compute_mmap_size g s gd (gap_size_of (gap_random e) s) = Some m \<Longrightarrow> mmap_ret e = Inl err
   \<Longrightarrow> allocate_thread_mapping g e w s gd =
         (w\<lparr>errno := err,
            calls := calls w @ [Mmap m PROT_NONE None,
              Log_warn ''pthread_create failed: couldn't allocate mapped space'']\<rparr>,
          ThreadMapping_empty)"
  by (simp add: allocate_thread_mapping_def sys_defs)

lemma allocate_thread_mapping_stack_failed:
  "compute_mmap_size g s gd (gap_size_of (gap_random e) s) = Some m \<Longrightarrow> mmap_ret e = Inr space
   \<Longrightarrow> mprotect_stack_ret e = Some err
   \<Longrightarrow> allocate_thread_mapping g e w s gd =
         (w\<lparr>errno := err,
            thread_mem := (\<lambda>p. if in_range space m p then None else thread_mem w p),
            tcb_mem := (\<lambda>p. if in_range space m p then None else tcb_mem w p),
            calls := calls w @ [Mmap m PROT_NONE (Some space),
              Mprotect (space + gd) s PROT_READ_WRITE False,
              Log_warn ''pthread_create failed: couldn't mprotect R+W thread mapping region'',
              Munmap space m]\<rparr>,
          ThreadMapping_empty)"
  by (simp add: allocate_thread_mapping_def sys_defs fun_eq_iff)

lemma allocate_thread_mapping_tls_failed:
  "compute_mmap_size g s gd (gap_size_of (gap_random e) s) = Some m \<Longrightarrow> mmap_ret e = Inr space
   \<Longrightarrow> mprotect_stack_ret e = None \<Longrightarrow> mprotect_tls_ret e = Some err
   \<Longrightarrow> allocate_thread_mapping g e w s gd =
         (w\<lparr>errno := err,
            thread_mem := (\<lambda>p. if in_range space m p then None else thread_mem w p),
            tcb_mem := (\<lambda>p. if in_range space m p then None else tcb_mem w p),
            calls := calls w @ [Mmap m PROT_NONE (Some space),
              Mprotect (space + gd) s PROT_READ_WRITE True,
              Prctl_set_vma_anon_name space gd ''stack guard'',
              Prctl_set_vma_anon_name (space + gd + s) (gap_size_of (gap_random e) s)
                ''stack top guard'',
              Mprotect (space + gd + s + gap_size_of (gap_random e) s)
                (thread_page_size g + layout_size g) PROT_READ_WRITE False,
              Log_warn ''pthread_create failed: couldn't mprotect R+W thread mapping region'',
              Munmap space m]\<rparr>,
          ThreadMapping_empty)"
  by (simp add: allocate_thread_mapping_def sys_defs fun_eq_iff Let_def)

lemma allocate_thread_mapping_ok:
  "compute_mmap_size g s gd (gap_size_of (gap_random e) s) = Some m \<Longrightarrow> mmap_ret e = Inr space
   \<Longrightarrow> mprotect_stack_ret e = None \<Longrightarrow> mprotect_tls_ret e = None
   \<Longrightarrow> allocate_thread_mapping g e w s gd =
         (w\<lparr>mappings := (space, m) # mappings w,
            thread_mem := (\<lambda>p. if in_range space m p then None else thread_mem w p),
            tcb_mem := (\<lambda>p. if in_range space m p then None else tcb_mem w p),
            calls := calls w @ [Mmap m PROT_NONE (Some space),
              Mprotect (space + gd) s PROT_READ_WRITE True,
              Prctl_set_vma_anon_name space gd ''stack guard'',
              Prctl_set_vma_anon_name (space + gd + s) (gap_size_of (gap_random e) s)
                ''stack top guard'',
              Mprotect (space + gd + s + gap_size_of (gap_random e) s)
                (thread_page_size g + layout_size g) PROT_READ_WRITE True]\<rparr>,
          \<lparr>mmap_base = space, mmap_size = m,
           static_tls = space + gd + s + gap_size_of (gap_random e) s + thread_page_size g,
           stack_base = space,
           stack_top =
             BIONIC_ALIGN_DOWN
               (space + gd + s
                  - ucast (arc4random_uniform (top_random e)
                             (ucast (sizeof_pthread_internal_t g))))
               16\<rparr>)"
  by (simp add: allocate_thread_mapping_def sys_defs fun_eq_iff Let_def)

lemma allocate_thread_mapping_nonempty:
  assumes "allocate_thread_mapping g e w s gd = (w', mp)" and "mp \<noteq> ThreadMapping_empty"
  obtains m space where
    "compute_mmap_size g s gd (gap_size_of (gap_random e) s) = Some m"
    "mmap_ret e = Inr space" "mprotect_stack_ret e = None" "mprotect_tls_ret e = None"
proof (cases "compute_mmap_size g s gd (gap_size_of (gap_random e) s)")
  case None
  with assms show ?thesis
    by (simp add: allocate_thread_mapping_overflow)
next
  case (Some m)
  show ?thesis
  proof (cases "mmap_ret e")
    case (Inl err)
    with assms Some show ?thesis
      by (simp add: allocate_thread_mapping_mmap_failed)
  next
    case (Inr space)
    show ?thesis
    proof (cases "mprotect_stack_ret e")
      case (Some err)
      with assms \<open>compute_mmap_size g s gd (gap_size_of (gap_random e) s) = Some m\<close> Inr
      show ?thesis
        by (simp add: allocate_thread_mapping_stack_failed)
    next
      case None
      show ?thesis
      proof (cases "mprotect_tls_ret e")
        case (Some err)
        with assms \<open>compute_mmap_size g s gd (gap_size_of (gap_random e) s) = Some m\<close> Inr
          \<open>mprotect_stack_ret e = None\<close>
        show ?thesis
          by (simp add: allocate_thread_mapping_tls_failed)
      next
        case None
        with \<open>compute_mmap_size g s gd (gap_size_of (gap_random e) s) = Some m\<close> Inr
          \<open>mprotect_stack_ret e = None\<close> that
        show ?thesis by blast
      qed
    qed
  qed
qed

lemma len32_gt12: "32 \<le> LENGTH('a::len) \<Longrightarrow> 12 < LENGTH('a)"
  by simp

lemma unat_ucast_32:
  assumes "32 \<le> LENGTH('a::len)"
  shows "unat (ucast (x :: 32 word) :: 'a word) = unat x"
proof -
  have "unat x < 2 ^ 32"
    using unsigned_less [of x] by simp
  also have "(2::nat) ^ 32 \<le> 2 ^ LENGTH('a)"
    using assms by (rule power_increasing) simp
  finally have "unat x < 2 ^ LENGTH('a)" .
  then show ?thesis
    by (simp add: unsigned_ucast_eq take_bit_nat_eq_self)
qed

lemma gap_size_dvd:
  assumes "32 \<le> LENGTH('a::len)"
  shows "4096 dvd unat (gap_size_of raw (s :: 'a word))"
  unfolding gap_size_of_def unat_ucast_32 [OF assms]
  by (simp add: unat_BIONIC_ALIGN)

lemma thread_page_size_dvd:
  "12 < LENGTH('a::len) \<Longrightarrow> 4096 dvd unat (thread_page_size (g :: 'a word libc_globals))"
  unfolding thread_page_size_def by (simp add: unat_BIONIC_ALIGN)

lemma unat_PTHREAD_GUARD_SIZE:
  "12 < LENGTH('a::len) \<Longrightarrow> unat (PTHREAD_GUARD_SIZE :: 'a word) = 4096"
  by (simp add: PTHREAD_GUARD_SIZE_def unat_PAGE_SIZE)

lemma round_up_page_add_left:
  assumes "4096 dvd a"
  shows "round_up_page (a + b) = a + round_up_page b"
proof -
  from assms obtain k where k: "a = 4096 * k" ..
  have "(4096 * k + (b + 4095)) div 4096 = k + (b + 4095) div 4096"
    by (rule div_mult_self4) simp
  then show ?thesis
    by (simp add: round_up_page_def k algebra_simps)
qed

lemma round_up_page_add_page: "round_up_page (b + 4096) = round_up_page b + 4096"
  using round_up_page_add_left [of 4096 b] by (simp add: add.commute)

lemma round_up_page_requested:
  assumes len: "32 \<le> LENGTH('a::len)"
    and s: "4096 dvd unat (s :: 'a word)" and gd: "4096 dvd unat gd"
  shows "round_up_page (requested_size g s gd (gap_size_of raw s)) =
           unat gd + unat s + unat (gap_size_of raw s) + unat (thread_page_size g)
             + round_up_page (unat (layout_size g)) + 4096"
proof -
  have len': "12 < LENGTH('a)"
    using len by simp
  have d: "4096 dvd unat s + unat gd + unat (gap_size_of raw s) + unat (thread_page_size g)"
    using s gd gap_size_dvd [OF len, of raw s] thread_page_size_dvd [OF len', of g]
    by simp
  have "requested_size g s gd (gap_size_of raw s) =
          (unat s + unat gd + unat (gap_size_of raw s) + unat (thread_page_size g))
            + (unat (layout_size g) + 4096)"
    by (simp add: requested_size_def unat_PTHREAD_GUARD_SIZE [OF len'])
  then show ?thesis
    by (simp add: round_up_page_add_left [OF d] round_up_page_add_page)
qed

lemma compute_mmap_size_Some:
  assumes len: "12 < LENGTH('a::len)"
    and "compute_mmap_size g (s :: 'a word) gd gap = Some m"
  shows "unat m = round_up_page (requested_size g s gd gap)"
    and "round_up_page (requested_size g s gd gap) < 2 ^ LENGTH('a)"
proof -
  from assms(2) show lt: "round_up_page (requested_size g s gd gap) < 2 ^ LENGTH('a)"
    by (simp add: compute_mmap_size_eq [OF len] split: if_splits)
  from assms(2) have "m = of_nat (round_up_page (requested_size g s gd gap))"
    by (simp add: compute_mmap_size_eq [OF len] split: if_splits)
  then show "unat m = round_up_page (requested_size g s gd gap)"
    using lt by (simp add: unat_of_nat)
qed

section \<open>The bookkeeping structure through allocation, spawn and initialisation\<close>

lemma compute_mmap_size_nonzero:
  assumes len: "12 < LENGTH('a::len)"
    and m: "compute_mmap_size g (s :: 'a word) gd gap = Some m"
  shows "m \<noteq> 0"
proof -
  have "4096 \<le> requested_size g s gd gap"
    by (simp add: requested_size_def unat_PTHREAD_GUARD_SIZE [OF len])
  also have "\<dots> \<le> round_up_page (requested_size g s gd gap)"
    by (rule round_up_page_ge)
  finally have "0 < unat m"
    by (simp add: compute_mmap_size_Some(1) [OF len m])
  then show ?thesis
    by (auto simp add: unat_gt_0)
qed

text \<open>What \<open>allocate_thread_finish\<close> leaves behind.\<close>

lemma allocate_thread_finish_result:
  assumes "allocate_thread_finish g w at mp sp clean = (w1, r)"
  defines "th \<equiv> static_tls mp - BIONIC_ALIGN (sizeof_pthread_internal_t g) PAGE_SIZE"
  shows "r = Inr (static_tls mp + layout_offset_bionic_tcb g, sp)"
    and "tcb_thread w1 (static_tls mp + layout_offset_bionic_tcb g) = th"
    and "thread_mmap_base (load_thread w1 th) = mmap_base mp"
    and "thread_mmap_size (load_thread w1 th) = mmap_size mp"
    and "attr (load_thread w1 th) = at\<lparr>attr_stack_size := sp - attr_stack_base at\<rparr>"
    and "mappings w1 = mappings w" and "kernel_threads w1 = kernel_threads w"
    and "registry w1 = registry w" and "errno w1 = errno w" and "calls w1 = calls w"
  using assms(1) unfolding th_def
  by (auto simp add: allocate_thread_finish_def mem_defs Let_def)

text \<open>A successful \<open>allocate_thread\<close>: one new mapping, recorded in the structure.\<close>

lemma allocate_thread_mapping_base_nonzero:
  assumes "allocate_thread_mapping g e w s gd = (w1, mp)" and "mmap_base mp \<noteq> 0"
  obtains m space where
    "compute_mmap_size g s gd (gap_size_of (gap_random e) s) = Some m"
    "mmap_ret e = Inr space" "mprotect_stack_ret e = None" "mprotect_tls_ret e = None"
proof -
  from assms(2) have "mp \<noteq> ThreadMapping_empty"
    by (auto simp add: ThreadMapping_empty_def)
  with assms(1) show ?thesis
    by (rule allocate_thread_mapping_nonempty) (rule that)
qed

lemma allocate_thread_success:
  fixes at :: "'a::len word pthread_attr_t"
  assumes len: "12 < LENGTH('a)"
    and run: "allocate_thread g e w at = (w1, Inr (tcb, child_stack))"
  obtains th space m where
    "tcb_thread w1 tcb = th"
    "thread_mmap_base (load_thread w1 th) = space" "thread_mmap_size (load_thread w1 th) = m"
    "m \<noteq> 0" "mappings w1 = (space, m) # mappings w"
    "attr_flags (attr (load_thread w1 th)) = attr_flags at"
    "attr_sched_policy (attr (load_thread w1 th)) = attr_sched_policy at"
    "attr_sched_priority (attr (load_thread w1 th)) = attr_sched_priority at"
    "kernel_threads w1 = kernel_threads w" "registry w1 = registry w" "errno w1 = errno w"
    "attr_stack_base at \<noteq> 0 \<longrightarrow> child_stack = attr_stack_base at + attr_stack_size at"
proof (cases "attr_stack_base at = 0")
  case True
  define at1 where "at1 = at\<lparr>attr_guard_size := BIONIC_ALIGN (attr_guard_size at) PAGE_SIZE\<rparr>"
  obtain w' mp where mp: "allocate_thread_mapping g e w (attr_stack_size at1) (attr_guard_size at1) = (w', mp)"
    by (cases "allocate_thread_mapping g e w (attr_stack_size at1) (attr_guard_size at1)")
  from run True mp have base: "mmap_base mp \<noteq> 0"
    by (auto simp add: allocate_thread_def Let_def at1_def split: if_splits)
  from run True mp base have fin:
    "allocate_thread_finish g w' (at1\<lparr>attr_stack_base := stack_base mp\<rparr>) mp (stack_top mp) True
       = (w1, Inr (tcb, child_stack))"
    by (auto simp add: allocate_thread_def Let_def at1_def split: if_splits)
  from mp base obtain m space where
    m: "compute_mmap_size g (attr_stack_size at1) (attr_guard_size at1)
          (gap_size_of (gap_random e) (attr_stack_size at1)) = Some m"
    and env: "mmap_ret e = Inr space" "mprotect_stack_ret e = None" "mprotect_tls_ret e = None"
    by (rule allocate_thread_mapping_base_nonzero)
  from mp allocate_thread_mapping_ok [OF m env, of w]
  have w': "mappings w' = (space, m) # mappings w" "kernel_threads w' = kernel_threads w"
    "registry w' = registry w" "errno w' = errno w" "mmap_base mp = space" "mmap_size mp = m"
    by auto
  note f = allocate_thread_finish_result [OF fin]
  show ?thesis
  proof (rule that)
    show "tcb_thread w1 tcb = static_tls mp - BIONIC_ALIGN (sizeof_pthread_internal_t g) PAGE_SIZE"
      using f(1,2) by simp
    show "m \<noteq> 0"
      by (rule compute_mmap_size_nonzero [OF len m])
  qed (use f w' True in \<open>simp_all add: at1_def\<close>)
next
  case False
  obtain w' mp where mp: "allocate_thread_mapping g e w 0 PTHREAD_GUARD_SIZE = (w', mp)"
    by (cases "allocate_thread_mapping g e w 0 (PTHREAD_GUARD_SIZE :: 'a word)")
  from run False mp have base: "mmap_base mp \<noteq> 0"
    by (auto simp add: allocate_thread_def split: if_splits)
  from run False mp base have fin:
    "allocate_thread_finish g w' at mp (attr_stack_base at + attr_stack_size at) False
       = (w1, Inr (tcb, child_stack))"
    by (auto simp add: allocate_thread_def split: if_splits)
  from mp base obtain m space where
    m: "compute_mmap_size g 0 PTHREAD_GUARD_SIZE (gap_size_of (gap_random e) 0) = Some m"
    and env: "mmap_ret e = Inr space" "mprotect_stack_ret e = None" "mprotect_tls_ret e = None"
    by (rule allocate_thread_mapping_base_nonzero)
  from mp allocate_thread_mapping_ok [OF m env, of w]
  have w': "mappings w' = (space, m) # mappings w" "kernel_threads w' = kernel_threads w"
    "registry w' = registry w" "errno w' = errno w" "mmap_base mp = space" "mmap_size mp = m"
    by auto
  note f = allocate_thread_finish_result [OF fin]
  show ?thesis
  proof (rule that)
    show "tcb_thread w1 tcb = static_tls mp - BIONIC_ALIGN (sizeof_pthread_internal_t g) PAGE_SIZE"
      using f(1,2) by simp
    show "m \<noteq> 0"
      by (rule compute_mmap_size_nonzero [OF len m])
  qed (use f w' False in simp_all)
qed

lemma load_upd_thread [simp]: "load_thread (upd_thread w p f) p = f (load_thread w p)"
  by (simp add: load_thread_def upd_thread_def)

lemma upd_thread_frame [simp]:
  "errno (upd_thread w p f) = errno w" "mappings (upd_thread w p f) = mappings w"
  "calls (upd_thread w p f) = calls w" "kernel_threads (upd_thread w p f) = kernel_threads w"
  "registry (upd_thread w p f) = registry w" "tcb_mem (upd_thread w p f) = tcb_mem w"
  by (simp_all add: upd_thread_def)

lemma shared_upd_thread [simp]:
  "shared (upd_thread w p f) = shared w @ [Store p (f (load_thread w p))]"
  by (simp add: upd_thread_def)

lemma record_call_frame [simp]:
  "errno (record_call c w) = errno w" "mappings (record_call c w) = mappings w"
  "calls (record_call c w) = calls w @ [c]" "kernel_threads (record_call c w) = kernel_threads w"
  "registry (record_call c w) = registry w" "tcb_mem (record_call c w) = tcb_mem w"
  "thread_mem (record_call c w) = thread_mem w"
  "load_thread (record_call c w) p = load_thread w p"
  "shared (record_call c w) = shared w"
  by (simp_all add: record_call_def load_thread_def)

lemma load_thread_shared [simp]: "load_thread (w\<lparr>shared := x\<rparr>) p = load_thread w p"
  by (simp add: load_thread_def)

lemma load_thread_errno [simp]: "load_thread (w\<lparr>errno := x\<rparr>) p = load_thread w p"
  by (simp add: load_thread_def)

lemma load_thread_kernel_threads [simp]:
  "load_thread (w\<lparr>kernel_threads := x\<rparr>) p = load_thread w p"
  by (simp add: load_thread_def)

lemma load_thread_registry [simp]:
  "load_thread (w\<lparr>registry := x\<rparr>) p = load_thread w p"
  by (simp add: load_thread_def)

text \<open>The two closed forms of \<open>sys_clone\<close>.\<close>

lemma sys_clone_failed:
  "sys_clone (Inl err) w child_stack th
     = (record_call (Clone child_stack th (-1)) (w\<lparr>errno := err\<rparr>), -1)"
  by (simp add: sys_clone_def)

lemma sys_clone_spawned:
  "sys_clone (Inr n) w child_stack th
     = (record_call (Clone child_stack th (int n))
          ((upd_thread w th (\<lambda>t. t\<lparr>tid := int n\<rparr>))
             \<lparr>kernel_threads := (int n, th, child_stack) # kernel_threads w,
              shared := shared w @ [Store th ((load_thread w th)\<lparr>tid := int n\<rparr>),
                                    Spawn th ((load_thread w th)\<lparr>tid := int n\<rparr>)]\<rparr>),
        int n)"
  by (simp add: sys_clone_def Let_def)

text \<open>The state in which \<open>pthread_create_spawn\<close> hands over, after a successful
  allocation.\<close>

lemma pthread_create_spawn_result:
  fixes w :: "'a::len word world"
  assumes len: "12 < LENGTH('a)"
    and run: "pthread_create_spawn g e w attr_p r arg = (w3, Inr (th, rc))"
  defines "at \<equiv> (case attr_p of None \<Rightarrow> pthread_attr_init g | Some a \<Rightarrow> a)"
  obtains child_stack where
    "startup_handshake_lock (load_thread w3 th) = Locked"
    "start_routine (load_thread w3 th) = r"
    "attr_flags (attr (load_thread w3 th)) = attr_flags at"
    "attr_sched_policy (attr (load_thread w3 th)) = attr_sched_policy at"
    "attr_sched_priority (attr (load_thread w3 th)) = attr_sched_priority at"
    "thread_mmap_size (load_thread w3 th) \<noteq> 0"
    "mappings w3 = (thread_mmap_base (load_thread w3 th), thread_mmap_size (load_thread w3 th))
                     # mappings w"
    "registry w3 = registry w"
    "last (calls w3) = Clone child_stack th rc"
    "attr_stack_base at \<noteq> 0 \<longrightarrow> child_stack = attr_stack_base at + attr_stack_size at"
    "rc = -1 \<longrightarrow> (\<exists>err. clone_ret e = Inl err \<and> errno w3 = err)
               \<and> kernel_threads w3 = kernel_threads w"
    "rc \<noteq> -1 \<longrightarrow> kernel_threads w3 = (rc, th, child_stack) # kernel_threads w
               \<and> tid (load_thread w3 th) = rc \<and> errno w3 = errno w"
    "case clone_ret e of Inl err \<Rightarrow> rc = -1 | Inr n \<Rightarrow> rc = int n"
proof -
  obtain w1 res where a: "allocate_thread g e w at = (w1, res)"
    by (cases "allocate_thread g e w at")
  with run obtain tcb child_stack where res: "res = Inr (tcb, child_stack)"
    by (cases res) (auto simp add: pthread_create_spawn_def at_def)
  from allocate_thread_success [OF len a [unfolded res]]
  obtain th' space m where al:
    "tcb_thread w1 tcb = th'"
    "thread_mmap_base (load_thread w1 th') = space" "thread_mmap_size (load_thread w1 th') = m"
    "m \<noteq> 0" "mappings w1 = (space, m) # mappings w"
    "attr_flags (attr (load_thread w1 th')) = attr_flags at"
    "attr_sched_policy (attr (load_thread w1 th')) = attr_sched_policy at"
    "attr_sched_priority (attr (load_thread w1 th')) = attr_sched_priority at"
    "kernel_threads w1 = kernel_threads w" "registry w1 = registry w" "errno w1 = errno w"
    "attr_stack_base at \<noteq> 0 \<longrightarrow> child_stack = attr_stack_base at + attr_stack_size at"
    by blast
  define w2 where "w2 = upd_thread (lock_lock (lock_init w1 th') th') th'
       (\<lambda>t. t\<lparr>start_routine := r, start_routine_arg := arg, cached_pid := getpid_ret e\<rparr>)"
  from run a res al(1) have c: "sys_clone (clone_ret e) w2 child_stack th' = (w3, rc)" and th: "th = th'"
    by (auto simp add: pthread_create_spawn_def at_def w2_def Let_def split: prod.splits)
  have w2: "startup_handshake_lock (load_thread w2 th') = Locked"
    "start_routine (load_thread w2 th') = r"
    "attr (load_thread w2 th') = attr (load_thread w1 th')"
    "thread_mmap_base (load_thread w2 th') = space" "thread_mmap_size (load_thread w2 th') = m"
    "mappings w2 = mappings w1" "registry w2 = registry w1" "kernel_threads w2 = kernel_threads w1"
    "errno w2 = errno w1"
    using al(2,3) by (simp_all add: w2_def lock_lock_def lock_init_def)
  show ?thesis
  proof (cases "clone_ret e")
    case (Inl err)
    with c have "w3 = record_call (Clone child_stack th' (-1)) (w2\<lparr>errno := err\<rparr>)" "rc = -1"
      by (auto simp add: sys_clone_failed)
    with w2 al Inl show ?thesis
      by (intro that [of child_stack]) (simp_all add: th)
  next
    case (Inr n)
    with c have "w3 = record_call (Clone child_stack th' (int n))
             ((upd_thread w2 th' (\<lambda>t. t\<lparr>tid := int n\<rparr>))
                \<lparr>kernel_threads := (int n, th', child_stack) # kernel_threads w2,
                 shared := shared w2 @ [Store th' ((load_thread w2 th')\<lparr>tid := int n\<rparr>),
                                        Spawn th' ((load_thread w2 th')\<lparr>tid := int n\<rparr>)]\<rparr>)"
      "rc = int n"
      by (auto simp add: sys_clone_spawned)
    with w2 al Inr show ?thesis
      by (intro that [of child_stack]) (simp_all add: th)
  qed
qed

lemma init_thread_apply_frame:
  assumes "init_thread_apply e w th need_set policy priority = (w', r)"
  shows "mappings w' = mappings w" "kernel_threads w' = kernel_threads w"
    "registry w' = registry w" "thread_mem w' = thread_mem w" "shared w' = shared w"
  using assms
  by (auto simp add: init_thread_apply_def sys_sched_setscheduler_def async_safe_format_log_def
      record_call_def Let_def split: if_splits option.splits)

lemma init_thread_frame:
  assumes "init_thread e w th = (w', r)"
  shows "mappings w' = mappings w" "kernel_threads w' = kernel_threads w"
    "registry w' = registry w"
    "load_thread w' th = init_thread_fields (load_thread w th)"
    "shared w' = shared w @ [Store th (init_thread_fields (load_thread w th))]"
proof -
  define w0 where "w0 = upd_thread w th init_thread_fields"
  have w0: "mappings w0 = mappings w" "kernel_threads w0 = kernel_threads w"
    "registry w0 = registry w" "load_thread w0 th = init_thread_fields (load_thread w th)"
    "shared w0 = shared w @ [Store th (init_thread_fields (load_thread w th))]"
    by (simp_all add: w0_def)
  have "mappings w' = mappings w0 \<and> kernel_threads w' = kernel_threads w0
      \<and> registry w' = registry w0 \<and> thread_mem w' = thread_mem w0 \<and> shared w' = shared w0"
    using assms
    unfolding init_thread_def init_thread_fields_def [symmetric, abs_def] w0_def [symmetric] Let_def
    by (auto simp add: sys_sched_getscheduler_def sys_sched_getparam_def async_safe_format_log_def
        record_call_def dest: init_thread_apply_frame split: if_splits sum.splits prod.splits)
  with w0 show "mappings w' = mappings w" "kernel_threads w' = kernel_threads w"
    "registry w' = registry w" "load_thread w' th = init_thread_fields (load_thread w th)"
    "shared w' = shared w @ [Store th (init_thread_fields (load_thread w th))]"
    by (simp_all add: load_thread_def)
qed

lemma init_thread_fields_frame [simp]:
  "startup_handshake_lock (init_thread_fields t) = startup_handshake_lock t"
  "start_routine (init_thread_fields t) = start_routine t"
  "thread_mmap_base (init_thread_fields t) = thread_mmap_base t"
  "thread_mmap_size (init_thread_fields t) = thread_mmap_size t"
  "tid (init_thread_fields t) = tid t" "attr (init_thread_fields t) = attr t"
  by (simp_all add: init_thread_fields_def)

text \<open>The history of the stores: what allocation and spawn enter in it.\<close>

lemma stores_to_append: "stores_to th (es @ fs) = stores_to th es @ stores_to th fs"
  by (induction th es rule: stores_to.induct) simp_all

lemma child_view_append:
  "child_view th (es @ fs) =
     (if child_view th es = [] then child_view th fs else child_view th es @ stores_to th fs)"
  by (induction th es rule: child_view.induct) (simp_all add: stores_to_append)

lemma new_shared_split:
  assumes "shared w1 = shared w @ pre" and "shared w' = shared w1 @ es"
  shows "new_shared w w' = pre @ es" and "new_shared w1 w' = es"
  using assms by (simp_all add: new_shared_def)

lemma allocate_thread_mapping_shared:
  "shared (fst (allocate_thread_mapping g e w s gd)) = shared w"
  by (simp add: allocate_thread_mapping_def sys_defs Let_def
      split: option.splits sum.splits prod.splits bool.splits)

lemma allocate_thread_finish_shared:
  assumes "allocate_thread_finish g w at mp sp clean = (w1, r)"
  shows "\<exists>ss. shared w1 = shared w @ ss \<and> child_view th ss = []"
  using assms by (auto simp add: allocate_thread_finish_def mem_defs Let_def)

lemma allocate_thread_shared:
  assumes "allocate_thread g e w at = (w1, r)"
  shows "\<exists>ss. shared w1 = shared w @ ss \<and> child_view th ss = []"
proof -
  have m: "shared w' = shared w" if "allocate_thread_mapping g e w s gd = (w', mp)" for w' s gd mp
    using allocate_thread_mapping_shared [of g e w s gd] that by simp
  from assms show ?thesis
    by (auto simp add: allocate_thread_def Let_def split: if_splits prod.splits
        dest!: m allocate_thread_finish_shared [where th = th])
qed

lemma pthread_create_spawn_shared:
  assumes run: "pthread_create_spawn g e w attr_p r arg = (w3, Inr (th, rc))"
    and rc: "rc \<noteq> -1"
  shows "\<exists>ss. shared w3 = shared w @ ss \<and> child_view th ss = [load_thread w3 th]"
proof -
  define at where "at = (case attr_p of None \<Rightarrow> pthread_attr_init g | Some a \<Rightarrow> a)"
  obtain w1 res where a: "allocate_thread g e w at = (w1, res)"
    by (cases "allocate_thread g e w at")
  with run obtain tcb child_stack where res: "res = Inr (tcb, child_stack)"
    by (cases res) (auto simp add: pthread_create_spawn_def at_def)
  from allocate_thread_shared [OF a, of th] obtain ss1 where
    ss1: "shared w1 = shared w @ ss1" "child_view th ss1 = []"
    by blast
  define w2 where "w2 = upd_thread (lock_lock (lock_init w1 th) th) th
       (\<lambda>t. t\<lparr>start_routine := r, start_routine_arg := arg, cached_pid := getpid_ret e\<rparr>)"
  from run a res have c: "sys_clone (clone_ret e) w2 child_stack th = (w3, rc)"
    by (auto simp add: pthread_create_spawn_def at_def w2_def Let_def split: prod.splits)
  obtain ss2 where ss2: "shared w2 = shared w1 @ ss2" "child_view th ss2 = []"
    by (simp add: w2_def lock_lock_def lock_init_def)
  from c rc obtain n where n: "clone_ret e = Inr n"
    by (cases "clone_ret e") (auto simp add: sys_clone_failed)
  from c have w3: "shared w3 = shared w2 @ [Store th ((load_thread w2 th)\<lparr>tid := int n\<rparr>),
                                             Spawn th ((load_thread w2 th)\<lparr>tid := int n\<rparr>)]"
    and t3: "load_thread w3 th = (load_thread w2 th)\<lparr>tid := int n\<rparr>"
    by (auto simp add: n sys_clone_spawned)
  show ?thesis
    by (intro exI [of _ "ss1 @ ss2 @ [Store th ((load_thread w2 th)\<lparr>tid := int n\<rparr>),
                                       Spawn th ((load_thread w2 th)\<lparr>tid := int n\<rparr>)]"])
      (simp add: w3 ss1 ss2 t3 child_view_append)
qed

section \<open>The paths of the scheduling step\<close>

lemma flags_either_zero:
  "(x :: 32 word) AND (a OR b) = 0 \<longleftrightarrow> x AND a = 0 \<and> x AND b = 0"
  by (simp add: bit.conj_disj_distrib or_eq_0_iff)

text \<open>What \<open>init_thread_apply\<close> does, case by case.\<close>

lemma init_thread_apply_skip:
  assumes "\<not> (if attr_flags (attr (load_thread w th))
                  AND (PTHREAD_ATTR_FLAG_INHERIT OR PTHREAD_ATTR_FLAG_EXPLICIT) = 0
              then attr_sched_policy (attr (load_thread w th)) \<noteq> SCHED_NORMAL else need_set)"
  shows "init_thread_apply e w th need_set policy priority = (w, 0)"
  using assms by (simp add: init_thread_apply_def Let_def)

lemma init_thread_apply_ok:
  assumes "if attr_flags (attr (load_thread w th))
                  AND (PTHREAD_ATTR_FLAG_INHERIT OR PTHREAD_ATTR_FLAG_EXPLICIT) = 0
           then attr_sched_policy (attr (load_thread w th)) \<noteq> SCHED_NORMAL else need_set"
    and "sched_setscheduler_ret e = None"
  shows "init_thread_apply e w th need_set policy priority =
           (record_call (Sched_setscheduler (tid (load_thread w th)) policy priority 0) w, 0)"
  using assms by (simp add: init_thread_apply_def Let_def sys_sched_setscheduler_def)

lemma init_thread_apply_failed:
  fixes w :: "'a::len word world"
  assumes "if attr_flags (attr (load_thread w th))
                  AND (PTHREAD_ATTR_FLAG_INHERIT OR PTHREAD_ATTR_FLAG_EXPLICIT) = 0
           then attr_sched_policy (attr (load_thread w th)) \<noteq> SCHED_NORMAL else need_set"
    and "sched_setscheduler_ret e = Some err"
  shows "init_thread_apply e w th need_set policy priority =
           (record_call (Log_warn ''pthread_create sched_setscheduler call failed'')
              (record_call (Sched_setscheduler (tid (load_thread w th)) policy priority (-1))
                 (w\<lparr>errno := err\<rparr>)),
            if LP64 TYPE('a) then err else 0)"
  using assms
  by (simp add: init_thread_apply_def Let_def sys_sched_setscheduler_def async_safe_format_log_def)

lemma init_thread_apply_setscheduler_failed:
  fixes w :: "'a::len word world"
  assumes run: "init_thread_apply e w th need_set policy priority = (w', r)"
    and call: "Sched_setscheduler t p pr (-1) \<in> set (new_calls w w')"
  shows "\<exists>err. sched_setscheduler_ret e = Some err \<and> r = (if LP64 TYPE('a) then err else 0)
           \<and> new_calls w w' = [Sched_setscheduler t p pr (-1),
                Log_warn ''pthread_create sched_setscheduler call failed'']"
proof (cases "if attr_flags (attr (load_thread w th))
                  AND (PTHREAD_ATTR_FLAG_INHERIT OR PTHREAD_ATTR_FLAG_EXPLICIT) = 0
           then attr_sched_policy (attr (load_thread w th)) \<noteq> SCHED_NORMAL else need_set")
  case False
  from run call init_thread_apply_skip [of w th need_set e policy priority] False
  show ?thesis by simp
next
  case True
  show ?thesis
  proof (cases "sched_setscheduler_ret e")
    case None
    from run call init_thread_apply_ok [OF True None, of policy priority]
    show ?thesis by (auto simp add: new_calls_def record_call_def)
  next
    case (Some err)
    from run call init_thread_apply_failed [OF True Some, of policy priority]
    show ?thesis by (auto simp add: new_calls_def record_call_def Some)
  qed
qed

lemma init_thread_apply_calls:
  assumes "init_thread_apply e w th need_set policy priority = (w', r)"
  shows "\<exists>cs. calls w' = calls w @ cs"
  using assms
  by (auto simp add: init_thread_apply_def sys_sched_setscheduler_def async_safe_format_log_def
      record_call_def Let_def split: if_splits option.splits)

lemma new_calls_split:
  assumes "calls w1 = calls w @ pre" and "calls w' = calls w1 @ cs"
  shows "new_calls w w' = pre @ new_calls w1 w'"
  using assms by (simp add: new_calls_def)

lemma minus_one_AND_reset: "(-1 :: int) AND SCHED_RESET_ON_FORK \<noteq> 0"
  by (simp add: SCHED_RESET_ON_FORK_def)

text \<open>The four ways through \<open>init_thread\<close>.\<close>

lemma init_thread_not_inherit:
  assumes "attr_flags (attr (load_thread w th)) AND PTHREAD_ATTR_FLAG_INHERIT = 0"
  shows "init_thread e w th =
           init_thread_apply e (upd_thread w th init_thread_fields) th True
             (attr_sched_policy (attr (load_thread w th)))
             (attr_sched_priority (attr (load_thread w th)))"
  using assms
  by (simp add: init_thread_def init_thread_fields_def [abs_def] Let_def)

lemma init_thread_getscheduler_failed:
  assumes "attr_flags (attr (load_thread w th)) AND PTHREAD_ATTR_FLAG_INHERIT \<noteq> 0"
    and "sched_getscheduler_ret e = Inl err"
  shows "init_thread e w th =
           (record_call (Log_warn ''pthread_create sched_getscheduler failed'')
              (record_call (Sched_getscheduler (-1))
                 ((upd_thread w th init_thread_fields)\<lparr>errno := err\<rparr>)), err)"
  using assms minus_one_AND_reset
  by (simp add: init_thread_def init_thread_fields_def [abs_def] Let_def
      sys_sched_getscheduler_def async_safe_format_log_def)

lemma init_thread_no_reset_on_fork:
  assumes "attr_flags (attr (load_thread w th)) AND PTHREAD_ATTR_FLAG_INHERIT \<noteq> 0"
    and "sched_getscheduler_ret e = Inr policy"
    and "int policy AND SCHED_RESET_ON_FORK = 0"
  shows "init_thread e w th =
           (record_call (Sched_getscheduler (int policy)) (upd_thread w th init_thread_fields), 0)"
proof -
  have "attr_flags (attr (load_thread w th))
          AND (PTHREAD_ATTR_FLAG_INHERIT OR PTHREAD_ATTR_FLAG_EXPLICIT) \<noteq> 0"
    using assms(1) by (simp add: flags_either_zero)
  then show ?thesis
    using assms
    by (simp add: init_thread_def init_thread_fields_def [abs_def] Let_def
        sys_sched_getscheduler_def init_thread_apply_skip init_thread_fields_def)
qed

lemma init_thread_getparam_failed:
  assumes "attr_flags (attr (load_thread w th)) AND PTHREAD_ATTR_FLAG_INHERIT \<noteq> 0"
    and "sched_getscheduler_ret e = Inr policy"
    and "int policy AND SCHED_RESET_ON_FORK \<noteq> 0"
    and "sched_getparam_ret e = Inl err"
  shows "init_thread e w th =
           (record_call (Log_warn ''pthread_create sched_getparam failed'')
              (record_call (Sched_getparam (-1))
                 ((record_call (Sched_getscheduler (int policy))
                     (upd_thread w th init_thread_fields))\<lparr>errno := err\<rparr>)), err)"
  using assms
  by (simp add: init_thread_def init_thread_fields_def [abs_def] Let_def
      sys_sched_getscheduler_def sys_sched_getparam_def async_safe_format_log_def)

lemma init_thread_reset_on_fork:
  assumes "attr_flags (attr (load_thread w th)) AND PTHREAD_ATTR_FLAG_INHERIT \<noteq> 0"
    and "sched_getscheduler_ret e = Inr policy"
    and "int policy AND SCHED_RESET_ON_FORK \<noteq> 0"
    and "sched_getparam_ret e = Inr priority"
  shows "init_thread e w th =
           init_thread_apply e
             (record_call (Sched_getparam 0)
                (record_call (Sched_getscheduler (int policy))
                   (upd_thread w th init_thread_fields)))
             th True (int policy) priority"
  using assms
  by (simp add: init_thread_def init_thread_fields_def [abs_def] Let_def
      sys_sched_getscheduler_def sys_sched_getparam_def)

lemma init_thread_setscheduler_failed:
  fixes w :: "'a::len word world"
  assumes run: "init_thread e w th = (w', r)"
    and call: "Sched_setscheduler t p pr (-1) \<in> set (new_calls w w')"
  shows "\<exists>err. sched_setscheduler_ret e = Some err \<and> r = (if LP64 TYPE('a) then err else 0)
           \<and> Log_warn ''pthread_create sched_setscheduler call failed'' \<in> set (new_calls w w')"
proof -
  define w0 where "w0 = upd_thread w th init_thread_fields"
  have w0: "calls w0 = calls w"
    by (simp add: w0_def)
  have through: ?thesis
    if a: "init_thread_apply e w1 th need_set policy priority = (w', r)"
      and w1: "calls w1 = calls w @ pre"
      and pre: "Sched_setscheduler t p pr (-1) \<notin> set pre"
    for w1 need_set policy priority pre
  proof -
    from init_thread_apply_calls [OF a] obtain cs where "calls w' = calls w1 @ cs" ..
    with w1 have split: "new_calls w w' = pre @ new_calls w1 w'"
      by (rule new_calls_split)
    with call pre have "Sched_setscheduler t p pr (-1) \<in> set (new_calls w1 w')"
      by simp
    from init_thread_apply_setscheduler_failed [OF a this] show ?thesis
      by (auto simp add: split)
  qed
  show ?thesis
  proof (cases "attr_flags (attr (load_thread w th)) AND PTHREAD_ATTR_FLAG_INHERIT = 0")
    case True
    show ?thesis
    proof (rule through)
      show "init_thread_apply e w0 th True (attr_sched_policy (attr (load_thread w th)))
              (attr_sched_priority (attr (load_thread w th))) = (w', r)"
        using run init_thread_not_inherit [OF True, of e] by (simp add: w0_def)
      show "calls w0 = calls w @ []"
        by (simp add: w0)
      show "Sched_setscheduler t p pr (-1) \<notin> set []"
        by simp
    qed
  next
    case inherit: False
    show ?thesis
    proof (cases "sched_getscheduler_ret e")
      case (Inl err)
      from run call init_thread_getscheduler_failed [OF inherit Inl] show ?thesis
        by (auto simp add: new_calls_def)
    next
      case (Inr policy)
      show ?thesis
      proof (cases "int policy AND SCHED_RESET_ON_FORK = 0")
        case True
        from run call init_thread_no_reset_on_fork [OF inherit Inr True] show ?thesis
          by (auto simp add: new_calls_def)
      next
        case reset: False
        show ?thesis
        proof (cases "sched_getparam_ret e")
          case (Inl err)
          from run call init_thread_getparam_failed [OF inherit Inr reset Inl] show ?thesis
            by (auto simp add: new_calls_def)
        next
          case (Inr priority)
          define w2 where "w2 = record_call (Sched_getparam 0)
                (record_call (Sched_getscheduler (int policy)) w0)"
          show ?thesis
          proof (rule through)
            show "init_thread_apply e w2 th True (int policy) priority = (w', r)"
              using run init_thread_reset_on_fork [OF inherit
                  \<open>sched_getscheduler_ret e = Inr policy\<close> reset Inr]
              by (simp add: w2_def w0_def)
            show "calls w2 = calls w @ [Sched_getscheduler (int policy), Sched_getparam 0]"
              by (simp add: w2_def w0)
            show "Sched_setscheduler t p pr (-1)
                    \<notin> set [Sched_getscheduler (int policy), Sched_getparam 0]"
              by simp
          qed
        qed
      qed
    qed
  qed
qed

section \<open>The paths of thread creation after the spawn\<close>

lemma abandon_spawned_thread:
  fixes w :: "'a::len word world"
  assumes len: "32 \<le> LENGTH('a)"
    and spawn: "pthread_create_spawn g e w attr_p r arg = (w3, Inr (th, rc))"
    and rc: "rc \<noteq> -1"
    and init: "init_thread e w3 th = (w4, init_errno)"
    and failed: "init_errno \<noteq> 0"
  shows "\<exists>w'. pthread_create g e w attr_p r arg = (w', init_errno, None)
          \<and> join_state (load_thread w' th) = THREAD_DETACHED
          \<and> start_routine (load_thread w' th) = Do_nothing
          \<and> startup_handshake_lock (load_thread w' th) = Unlocked
          \<and> registry w' = th # registry w
          \<and> new_calls w4 w' = [Pthread_internal_add th, Lock_unlock th]
          \<and> pthread_start w3 th = None \<and> pthread_start w4 th = None
          \<and> pthread_start w' th = Some Do_nothing
          \<and> (\<exists>child_stack. kernel_threads w' = (rc, th, child_stack) # kernel_threads w)
          \<and> mappings w' = mappings w3
          \<and> errno w' = errno w
          \<and> (\<exists>ts t. child_view th (new_shared w w') = ts @ [t]
                \<and> ts \<noteq> [] \<and> hd ts = load_thread w3 th
                \<and> list_all (\<lambda>t. startup_handshake_lock t = Locked) ts
                \<and> startup_handshake_lock t = Unlocked \<and> start_routine t = Do_nothing)"
proof -
  have len': "12 < LENGTH('a)"
    using len by simp
  obtain child_stack where raw:
    "startup_handshake_lock (load_thread w3 th) = Locked"
    "registry w3 = registry w"
    "rc \<noteq> -1 \<longrightarrow> kernel_threads w3 = (rc, th, child_stack) # kernel_threads w
               \<and> tid (load_thread w3 th) = rc \<and> errno w3 = errno w"
    by (rule pthread_create_spawn_result [OF len' spawn]) (rule that; assumption)
  from raw(3) rc have "kernel_threads w3 = (rc, th, child_stack) # kernel_threads w"
    by simp
  note sp = raw(1,2) this
  note fr = init_thread_frame [OF init]
  define w8 where "w8 =
    lock_unlock
      (upd_thread
         (fst (pthread_internal_add
                 (upd_thread w4 th (\<lambda>t. t\<lparr>join_state := THREAD_DETACHED\<rparr>)) th))
         th (\<lambda>t. t\<lparr>start_routine := Do_nothing\<rparr>))
      th"
  have body: "pthread_create_body g e w attr_p r arg = (w8, init_errno, None)"
    using spawn rc init failed by (simp add: pthread_create_body_def w8_def Let_def)
  have "pthread_create g e w attr_p r arg = (w8\<lparr>errno := errno w\<rparr>, init_errno, None)"
    by (simp add: pthread_create_def body)
  moreover have "join_state (load_thread (w8\<lparr>errno := errno w\<rparr>) th) = THREAD_DETACHED"
    "start_routine (load_thread (w8\<lparr>errno := errno w\<rparr>) th) = Do_nothing"
    "startup_handshake_lock (load_thread (w8\<lparr>errno := errno w\<rparr>) th) = Unlocked"
    by (simp_all add: w8_def lock_unlock_def pthread_internal_add_def)
  moreover have "registry (w8\<lparr>errno := errno w\<rparr>) = th # registry w"
    "kernel_threads (w8\<lparr>errno := errno w\<rparr>) = (rc, th, child_stack) # kernel_threads w"
    "mappings (w8\<lparr>errno := errno w\<rparr>) = mappings w3"
    using sp fr by (simp_all add: w8_def lock_unlock_def pthread_internal_add_def)
  moreover have "new_calls w4 (w8\<lparr>errno := errno w\<rparr>) = [Pthread_internal_add th, Lock_unlock th]"
    by (simp add: w8_def lock_unlock_def pthread_internal_add_def new_calls_def)
  moreover have "pthread_start w3 th = None" "pthread_start w4 th = None"
    using sp fr by (simp_all add: pthread_start_def)
  moreover have "pthread_start (w8\<lparr>errno := errno w\<rparr>) th = Some Do_nothing"
    by (simp add: pthread_start_def w8_def lock_unlock_def pthread_internal_add_def)
  moreover have "\<exists>ts t. child_view th (new_shared w (w8\<lparr>errno := errno w\<rparr>)) = ts @ [t]
                \<and> ts \<noteq> [] \<and> hd ts = load_thread w3 th
                \<and> list_all (\<lambda>t. startup_handshake_lock t = Locked) ts
                \<and> startup_handshake_lock t = Unlocked \<and> start_routine t = Do_nothing"
  proof -
    from pthread_create_spawn_shared [OF spawn rc] obtain ss where
      ss: "shared w3 = shared w @ ss" "child_view th ss = [load_thread w3 th]"
      by blast
    define t3 where "t3 = load_thread w3 th"
    define t4 where "t4 = init_thread_fields t3"
    define t5 where "t5 = t4\<lparr>join_state := THREAD_DETACHED\<rparr>"
    define t7 where "t7 = t5\<lparr>start_routine := Do_nothing\<rparr>"
    define t8 where "t8 = t7\<lparr>startup_handshake_lock := Unlocked\<rparr>"
    have "shared (w8\<lparr>errno := errno w\<rparr>)
            = shared w @ ss @ [Store th t4, Store th t5, Store th t7, Store th t8]"
      using ss(1) fr(4,5)
      by (simp add: w8_def lock_unlock_def pthread_internal_add_def t3_def t4_def t5_def t7_def
          t8_def)
    then have "new_shared w (w8\<lparr>errno := errno w\<rparr>)
            = ss @ [Store th t4, Store th t5, Store th t7, Store th t8]"
      by (simp add: new_shared_def)
    then have view: "child_view th (new_shared w (w8\<lparr>errno := errno w\<rparr>))
            = [t3, t4, t5, t7] @ [t8]"
      by (simp add: child_view_append ss(2) t3_def)
    have "list_all (\<lambda>t. startup_handshake_lock t = Locked) [t3, t4, t5, t7]"
      using sp(1) by (simp add: t3_def t4_def t5_def t7_def)
    moreover have "startup_handshake_lock t8 = Unlocked" "start_routine t8 = Do_nothing"
      by (simp_all add: t8_def t7_def)
    ultimately show ?thesis
      using view by (intro exI [of _ "[t3, t4, t5, t7]"] exI [of _ t8]) (simp add: t3_def)
  qed
  ultimately show ?thesis
    by (intro exI [of _ "w8\<lparr>errno := errno w\<rparr>"]) simp
qed

lemma gap_size_of_zero: "gap_size_of raw (0 :: 'a::len word) = 0"
  by (simp add: gap_size_of_def max_gap_size_def arc4random_uniform_def BIONIC_ALIGN_def
      PAGE_SIZE_def)

lemma allocate_thread_caller_stack:
  assumes "attr_stack_base at \<noteq> 0"
    and "allocate_thread_mapping g e w 0 PTHREAD_GUARD_SIZE = (w', mp)"
  shows "allocate_thread g e w at =
           (if mmap_base mp = 0 then (w', Inl EAGAIN)
            else allocate_thread_finish g w' at mp (attr_stack_base at + attr_stack_size at) False)"
  using assms by (simp add: allocate_thread_def)

section \<open>The claims\<close>

subsection \<open>C1: initialisation fails after the spawn\<close>

text \<open>
  Claim C1. Let \<^verbatim>\<open>clone\<close> have succeeded and let \<^verbatim>\<open>__init_thread\<close> then return an
  error. Then \<^verbatim>\<open>pthread_create\<close> returns that error and writes no handle; the
  bookkeeping structure is marked detached, its entry point is \<^verbatim>\<open>__do_nothing\<close>, and
  the handshake lock is released; the thread has been added to the registry, and the
  registration and the release are the last two calls, in this order. The spawned
  thread is held at the lock when it is spawned and when \<^verbatim>\<open>__init_thread\<close> has
  returned, and once released it calls \<^verbatim>\<open>__do_nothing\<close>, not the caller's entry point.
  The kernel thread is still there and the creator has released no mapping: the thread
  frees its own on exit. errno is as before the call.

  The spawned thread runs beside the creator, so what counts is every content of the
  structure it can find from its spawn on, not only the final one. These are, in order,
  the content at the moment \<^verbatim>\<open>clone\<close> spawned it and the content after each later
  store. In all of them the lock is held, beginning with the one at the spawn, except in
  the last, where the lock is free and the entry point is \<^verbatim>\<open>__do_nothing\<close>. So at no
  moment can the thread get past the lock and find the caller's entry point.
\<close>

theorem init_failure_after_spawn:
  fixes w :: "'a::len word world"
  assumes len: "32 \<le> LENGTH('a)"
    and spawn: "pthread_create_spawn g e w attr_p r arg = (w3, Inr (th, rc))"
    and rc: "rc \<noteq> -1"
    and init: "init_thread e w3 th = (w4, init_errno)"
    and failed: "init_errno \<noteq> 0"
  shows "\<exists>w'. pthread_create g e w attr_p r arg = (w', init_errno, None)
          \<and> join_state (load_thread w' th) = THREAD_DETACHED
          \<and> start_routine (load_thread w' th) = Do_nothing
          \<and> startup_handshake_lock (load_thread w' th) = Unlocked
          \<and> registry w' = th # registry w
          \<and> new_calls w4 w' = [Pthread_internal_add th, Lock_unlock th]
          \<and> pthread_start w3 th = None \<and> pthread_start w4 th = None
          \<and> pthread_start w' th = Some Do_nothing
          \<and> (\<exists>child_stack. kernel_threads w' = (rc, th, child_stack) # kernel_threads w)
          \<and> mappings w' = mappings w3
          \<and> errno w' = errno w
          \<and> (\<exists>ts t. child_view th (new_shared w w') = ts @ [t]
                \<and> ts \<noteq> [] \<and> hd ts = load_thread w3 th
                \<and> list_all (\<lambda>t. startup_handshake_lock t = Locked) ts
                \<and> startup_handshake_lock t = Unlocked \<and> start_routine t = Do_nothing)"
  using assms by (rule abandon_spawned_thread)

theorem init_failure_after_spawn_witness:
  "snd (pthread_create_spawn globals0 (env0\<lparr>sched_setscheduler_ret := Some 1\<rparr>) world0
          (Some (attr0\<lparr>attr_flags := 8, attr_sched_policy := 1, attr_sched_priority := 50\<rparr>))
          (Caller_routine 1) 0)
     = Inr (0x70118000 :: 64 word, 4242)
   \<and> snd (init_thread (env0\<lparr>sched_setscheduler_ret := Some 1\<rparr>)
          (fst (pthread_create_spawn globals0 (env0\<lparr>sched_setscheduler_ret := Some 1\<rparr>) world0
            (Some (attr0\<lparr>attr_flags := 8, attr_sched_policy := 1, attr_sched_priority := 50\<rparr>))
            (Caller_routine 1) 0))
          (0x70118000 :: 64 word)) = 1
   \<and> snd (pthread_create globals0 (env0\<lparr>sched_setscheduler_ret := Some 1\<rparr>) world0
          (Some (attr0\<lparr>attr_flags := 8, attr_sched_policy := 1, attr_sched_priority := 50\<rparr>))
          (Caller_routine 1) (0 :: 64 word)) = (1, None)
   \<and> pthread_start
         (fst (pthread_create globals0 (env0\<lparr>sched_setscheduler_ret := Some 1\<rparr>) world0
          (Some (attr0\<lparr>attr_flags := 8, attr_sched_policy := 1, attr_sched_priority := 50\<rparr>))
          (Caller_routine 1) 0))
         (0x70118000 :: 64 word) = Some Do_nothing
   \<and> map (\<lambda>t. (startup_handshake_lock t, start_routine t))
         (child_view (0x70118000 :: 64 word)
            (new_shared world0
               (fst (pthread_create globals0 (env0\<lparr>sched_setscheduler_ret := Some 1\<rparr>) world0
                  (Some (attr0\<lparr>attr_flags := 8, attr_sched_policy := 1,
                           attr_sched_priority := 50\<rparr>))
                  (Caller_routine 1) 0))))
       = [(Locked, Caller_routine 1), (Locked, Caller_routine 1), (Locked, Caller_routine 1),
          (Locked, Do_nothing), (Unlocked, Do_nothing)]"
proof -
  define e :: "64 word env" where "e = env0\<lparr>sched_setscheduler_ret := Some 1\<rparr>"
  define a :: "64 word pthread_attr_t" where
    "a = attr0\<lparr>attr_flags := 8, attr_sched_policy := 1, attr_sched_priority := 50\<rparr>"
  define S where "S = pthread_create_spawn globals0 e world0 (Some a) (Caller_routine 1) 0"
  define I where "I = init_thread e (fst S) 0x70118000"
  have len: "32 \<le> LENGTH(64)"
    by simp
  have s: "snd S = Inr (0x70118000, 4242)"
    by (simp add: S_def e_def a_def run_defs)
  then have spawn: "pthread_create_spawn globals0 e world0 (Some a) (Caller_routine 1) 0
      = (fst S, Inr (0x70118000, 4242))"
    by (simp add: S_def prod_eq_iff)
  have rc: "(4242 :: int) \<noteq> -1"
    by simp
  have i: "snd I = 1"
    by (simp add: I_def S_def e_def a_def run_defs)
  then have init: "init_thread e (fst S) 0x70118000 = (fst I, 1)"
    by (simp add: I_def prod_eq_iff)
  have failed: "(1 :: int) \<noteq> 0"
    by simp
  have view: "map (\<lambda>t. (startup_handshake_lock t, start_routine t))
         (child_view (0x70118000 :: 64 word)
            (new_shared world0
               (fst (pthread_create globals0 e world0 (Some a) (Caller_routine 1) 0))))
       = [(Locked, Caller_routine 1), (Locked, Caller_routine 1), (Locked, Caller_routine 1),
          (Locked, Do_nothing), (Unlocked, Do_nothing)]"
    by (simp add: e_def a_def run_defs)
  from init_failure_after_spawn [OF len spawn rc init failed] s i view
  show ?thesis
    unfolding S_def I_def e_def a_def by auto
qed

subsection \<open>C2: overflow of the total size\<close>

text \<open>
  Claim C2. Take any stack size and guard size for which the total the mapping is sized
  from (stack, guard, gap, the pages of the bookkeeping structure, static TLS, tail
  guard, then rounding up to a page) does not fit \<^verbatim>\<open>size_t\<close>; since every summand is
  non-negative this is the case exactly when some step of the computation overflows.
  Then \<^verbatim>\<open>__allocate_thread_mapping\<close> returns the empty mapping and leaves the world as
  it was, in particular it has made no call, so nothing was reserved; and
  \<^verbatim>\<open>pthread_create\<close> for attributes that ask for this pair returns \<^verbatim>\<open>EAGAIN\<close>, writes no
  handle and leaves the world as it was.
\<close>

theorem overflow_fails_without_reservation:
  fixes s gd :: "'a::len word"
  assumes len: "32 \<le> LENGTH('a)"
    and ovf: "2 ^ LENGTH('a)
                \<le> round_up_page (requested_size g s gd (gap_size_of (gap_random e) s))"
  shows "allocate_thread_mapping g e w s gd = (w, ThreadMapping_empty)
         \<and> (\<forall>at. attr_stack_base at = 0 \<and> attr_stack_size at = s
                  \<and> BIONIC_ALIGN (attr_guard_size at) PAGE_SIZE = gd
               \<longrightarrow> pthread_create g e w (Some at) start_routine_p arg = (w, EAGAIN, None))"
proof -
  have none: "compute_mmap_size g s gd (gap_size_of (gap_random e) s) = None"
    using ovf by (simp add: compute_mmap_size_eq [OF len32_gt12 [OF len]])
  then have m: "allocate_thread_mapping g e w s gd = (w, ThreadMapping_empty)"
    by (rule allocate_thread_mapping_overflow)
  have "pthread_create g e w (Some at) start_routine_p arg = (w, EAGAIN, None)"
    if "attr_stack_base at = 0" "attr_stack_size at = s"
       "BIONIC_ALIGN (attr_guard_size at) PAGE_SIZE = gd" for at
  proof -
    have "allocate_thread g e w at = (w, Inl EAGAIN)"
      using that m by (simp add: allocate_thread_def ThreadMapping_empty_def Let_def)
    then show ?thesis
      by (simp add: pthread_create_def pthread_create_body_def pthread_create_spawn_def)
  qed
  with m show ?thesis by blast
qed

theorem overflow_fails_without_reservation_witness:
  "(2::nat) ^ LENGTH(64)
     \<le> round_up_page (requested_size (globals0 :: 64 word libc_globals) 0xFFFFFFFFFFFF0000 4096
          (gap_size_of (gap_random (env0 :: 64 word env)) 0xFFFFFFFFFFFF0000))
   \<and> allocate_thread_mapping globals0 env0 world0 (0xFFFFFFFFFFFF0000 :: 64 word) 4096
       = (world0, ThreadMapping_empty)
   \<and> pthread_create globals0 env0 world0
        (Some (attr0\<lparr>attr_stack_size := 0xFFFFFFFFFFFF0000 :: 64 word\<rparr>)) (Caller_routine 1) 0
       = (world0, 11, None)"
proof -
  have len: "32 \<le> LENGTH(64)"
    by simp
  have ovf: "(2::nat) ^ LENGTH(64)
     \<le> round_up_page (requested_size (globals0 :: 64 word libc_globals) 0xFFFFFFFFFFFF0000 4096
          (gap_size_of (gap_random (env0 :: 64 word env)) 0xFFFFFFFFFFFF0000))"
    by (simp add: round_up_page_def requested_size_def macro_defs example_defs)
  show ?thesis
    using overflow_fails_without_reservation [OF len ovf, of world0 "Caller_routine 1" 0] ovf
    by (simp add: macro_defs example_defs)
qed

subsection \<open>C3: a failed allocation leaves no mapping behind\<close>

text \<open>
  Claim C3. In every run of \<^verbatim>\<open>__allocate_thread_mapping\<close> in which the reservation
  (\<^verbatim>\<open>mmap\<close>) or either of the two \<^verbatim>\<open>mprotect\<close> calls fails, the empty mapping is
  returned, the live mappings are those from before the call, and if the call did
  reserve a region then its last call is the \<^verbatim>\<open>munmap\<close> of that whole region.
\<close>

theorem failed_allocation_leaves_no_mapping:
  assumes "(\<exists>err. mmap_ret e = Inl err) \<or> mprotect_stack_ret e \<noteq> None \<or> mprotect_tls_ret e \<noteq> None"
  shows "snd (allocate_thread_mapping g e w s gd) = ThreadMapping_empty
         \<and> mappings (fst (allocate_thread_mapping g e w s gd)) = mappings w
         \<and> (\<forall>m space. Mmap m PROT_NONE (Some space)
                \<in> set (new_calls w (fst (allocate_thread_mapping g e w s gd)))
              \<longrightarrow> last (new_calls w (fst (allocate_thread_mapping g e w s gd))) = Munmap space m)"
proof (cases "compute_mmap_size g s gd (gap_size_of (gap_random e) s)")
  case None
  then show ?thesis
    by (simp add: allocate_thread_mapping_overflow)
next
  case (Some m)
  show ?thesis
  proof (cases "mmap_ret e")
    case (Inl err)
    with Some show ?thesis
      by (simp add: allocate_thread_mapping_mmap_failed new_calls_def)
  next
    case (Inr space)
    show ?thesis
    proof (cases "mprotect_stack_ret e")
      case (Some err)
      with \<open>compute_mmap_size g s gd (gap_size_of (gap_random e) s) = Some m\<close> Inr
      show ?thesis
        by (simp add: allocate_thread_mapping_stack_failed new_calls_def)
    next
      case None
      with assms Inr obtain err where "mprotect_tls_ret e = Some err"
        by auto
      with \<open>compute_mmap_size g s gd (gap_size_of (gap_random e) s) = Some m\<close> Inr None
      show ?thesis
        by (simp add: allocate_thread_mapping_tls_failed new_calls_def)
    qed
  qed
qed

theorem failed_allocation_leaves_no_mapping_witness:
  "mprotect_tls_ret (env0\<lparr>mprotect_tls_ret := Some 12\<rparr> :: 64 word env) \<noteq> None
   \<and> allocate_thread_mapping globals0 (env0\<lparr>mprotect_tls_ret := Some 12\<rparr>) world0
        (1015808 :: 64 word) 4096
       = (world0\<lparr>errno := 12,
            calls := [Mmap 1171456 PROT_NONE (Some 0x70000000),
              Mprotect 0x70001000 1015808 PROT_READ_WRITE True,
              Prctl_set_vma_anon_name 0x70000000 4096 ''stack guard'',
              Prctl_set_vma_anon_name 0x700F9000 126976 ''stack top guard'',
              Mprotect 0x70118000 16448 PROT_READ_WRITE False,
              Log_warn ''pthread_create failed: couldn't mprotect R+W thread mapping region'',
              Munmap 0x70000000 1171456]\<rparr>, ThreadMapping_empty)
   \<and> mappings (fst (allocate_thread_mapping globals0 (env0\<lparr>mprotect_tls_ret := Some 12\<rparr>) world0
        (1015808 :: 64 word) 4096)) = []"
  using failed_allocation_leaves_no_mapping
    [of "env0\<lparr>mprotect_tls_ret := Some 12\<rparr> :: 64 word env" globals0 world0 1015808 4096]
  by (simp add: code_defs macro_defs sys_defs example_defs fun_eq_iff Let_def)

subsection \<open>C4: inherited scheduling\<close>

text \<open>
  Claim C4 says that a failed query of the current thread's policy or priority aborts
  creation before any kernel thread is spawned. The query is made in \<^verbatim>\<open>__init_thread\<close>,
  which \<^verbatim>\<open>pthread_create\<close> calls after \<^verbatim>\<open>clone\<close>, since it needs the new thread's id.
  In the run below the caller asks for inheritance and \<^verbatim>\<open>sched_getscheduler\<close> fails
  with errno 1: \<^verbatim>\<open>pthread_create\<close> returns 1, but the successful \<^verbatim>\<open>clone\<close> comes
  before the query and the kernel thread 4242 exists afterwards.
\<close>

theorem query_failure_after_spawn_counterexample:
  "attr_flags (attr0\<lparr>attr_flags := 4\<rparr> :: 64 word pthread_attr_t) AND PTHREAD_ATTR_FLAG_INHERIT = 4
   \<and> snd (pthread_create globals0 (env0\<lparr>sched_getscheduler_ret := Inl 1\<rparr>) world0
          (Some (attr0\<lparr>attr_flags := 4\<rparr>)) (Caller_routine 1) (0 :: 64 word)) = (1, None)
   \<and> kernel_threads (fst (pthread_create globals0 (env0\<lparr>sched_getscheduler_ret := Inl 1\<rparr>)
          world0 (Some (attr0\<lparr>attr_flags := 4\<rparr>)) (Caller_routine 1) (0 :: 64 word)))
       = [(4242, 0x70118000, 0x700F8F90)]
   \<and> calls (fst (pthread_create globals0 (env0\<lparr>sched_getscheduler_ret := Inl 1\<rparr>)
          world0 (Some (attr0\<lparr>attr_flags := 4\<rparr>)) (Caller_routine 1) (0 :: 64 word)))
       = [Mmap 1171456 PROT_NONE (Some 0x70000000),
          Mprotect 0x70001000 1015808 PROT_READ_WRITE True,
          Prctl_set_vma_anon_name 0x70000000 4096 ''stack guard'',
          Prctl_set_vma_anon_name 0x700F9000 126976 ''stack top guard'',
          Mprotect 0x70118000 16448 PROT_READ_WRITE True,
          Lock_lock 0x70118000,
          Clone 0x700F8F90 0x70118000 4242,
          Sched_getscheduler (-1),
          Log_warn ''pthread_create sched_getscheduler failed'',
          Pthread_internal_add 0x70118000,
          Lock_unlock 0x70118000]"
  by (simp add: run_defs)

text \<open>
  Claim C4, amended. Let the caller have requested scheduling inheritance and let the
  spawn have succeeded; \<^verbatim>\<open>__init_thread\<close> runs then, so the kernel thread exists
  already. It re-reads the current thread's policy. If the policy read lacks the
  reset-on-fork modifier, nothing more is called and the result is 0. If it carries the
  modifier, the priority is read and the explicit \<^verbatim>\<open>sched_setscheduler\<close> call is made
  for the new thread with the policy and priority read. If reading the policy or the
  priority fails, no \<^verbatim>\<open>sched_setscheduler\<close> call is made, a warning is logged and the
  result is the errno of the failed query. Whenever the result is not 0,
  \<^verbatim>\<open>pthread_create\<close> returns it with no handle, and the kernel thread spawned before
  is still there, detached and released to run the no-op.
\<close>

theorem inherited_scheduling_after_spawn:
  fixes w :: "'a::len word world"
  assumes len: "32 \<le> LENGTH('a)"
    and spawn: "pthread_create_spawn g e w attr_p r arg = (w3, Inr (th, rc))"
    and rc: "rc \<noteq> -1"
    and inherit: "attr_flags (case attr_p of None \<Rightarrow> pthread_attr_init g | Some a \<Rightarrow> a)
                    AND PTHREAD_ATTR_FLAG_INHERIT \<noteq> 0"
    and init: "init_thread e w3 th = (w4, init_errno)"
  shows "(case sched_getscheduler_ret e of
            Inl err \<Rightarrow>
              new_calls w3 w4 =
                [Sched_getscheduler (-1), Log_warn ''pthread_create sched_getscheduler failed'']
              \<and> init_errno = err
          | Inr policy \<Rightarrow>
              if int policy AND SCHED_RESET_ON_FORK = 0
              then new_calls w3 w4 = [Sched_getscheduler (int policy)] \<and> init_errno = 0
              else (case sched_getparam_ret e of
                      Inl err \<Rightarrow>
                        new_calls w3 w4 =
                          [Sched_getscheduler (int policy), Sched_getparam (-1),
                           Log_warn ''pthread_create sched_getparam failed'']
                        \<and> init_errno = err
                    | Inr priority \<Rightarrow>
                        take 3 (new_calls w3 w4) =
                          [Sched_getscheduler (int policy), Sched_getparam 0,
                           Sched_setscheduler rc (int policy) priority
                             (if sched_setscheduler_ret e = None then 0 else -1)]))
       \<and> (\<exists>child_stack. kernel_threads w3 = (rc, th, child_stack) # kernel_threads w)
       \<and> (init_errno \<noteq> 0 \<longrightarrow>
            (\<exists>w'. pthread_create g e w attr_p r arg = (w', init_errno, None)
               \<and> (\<exists>child_stack. kernel_threads w' = (rc, th, child_stack) # kernel_threads w)
               \<and> join_state (load_thread w' th) = THREAD_DETACHED
               \<and> pthread_start w' th = Some Do_nothing))"
proof -
  have len': "12 < LENGTH('a)"
    using len by simp
  obtain child_stack where sp:
    "attr_flags (attr (load_thread w3 th))
       = attr_flags (case attr_p of None \<Rightarrow> pthread_attr_init g | Some a \<Rightarrow> a)"
    "rc \<noteq> -1 \<longrightarrow> kernel_threads w3 = (rc, th, child_stack) # kernel_threads w
               \<and> tid (load_thread w3 th) = rc \<and> errno w3 = errno w"
    by (rule pthread_create_spawn_result [OF len' spawn]) (rule that; assumption)
  from sp(1) inherit have inh: "attr_flags (attr (load_thread w3 th)) AND PTHREAD_ATTR_FLAG_INHERIT \<noteq> 0"
    by simp
  from sp(2) rc have kt: "kernel_threads w3 = (rc, th, child_stack) # kernel_threads w"
    and tid: "tid (load_thread w3 th) = rc"
    by simp_all
  have sched: "(case sched_getscheduler_ret e of
            Inl err \<Rightarrow>
              new_calls w3 w4 =
                [Sched_getscheduler (-1), Log_warn ''pthread_create sched_getscheduler failed'']
              \<and> init_errno = err
          | Inr policy \<Rightarrow>
              if int policy AND SCHED_RESET_ON_FORK = 0
              then new_calls w3 w4 = [Sched_getscheduler (int policy)] \<and> init_errno = 0
              else (case sched_getparam_ret e of
                      Inl err \<Rightarrow>
                        new_calls w3 w4 =
                          [Sched_getscheduler (int policy), Sched_getparam (-1),
                           Log_warn ''pthread_create sched_getparam failed'']
                        \<and> init_errno = err
                    | Inr priority \<Rightarrow>
                        take 3 (new_calls w3 w4) =
                          [Sched_getscheduler (int policy), Sched_getparam 0,
                           Sched_setscheduler rc (int policy) priority
                             (if sched_setscheduler_ret e = None then 0 else -1)]))"
  proof (cases "sched_getscheduler_ret e")
    case (Inl err)
    with init init_thread_getscheduler_failed [OF inh Inl] show ?thesis
      by (auto simp add: new_calls_def)
  next
    case (Inr policy)
    show ?thesis
    proof (cases "int policy AND SCHED_RESET_ON_FORK = 0")
      case True
      with init Inr init_thread_no_reset_on_fork [OF inh Inr True] show ?thesis
        by (auto simp add: new_calls_def)
    next
      case reset: False
      show ?thesis
      proof (cases "sched_getparam_ret e")
        case (Inl err)
        with init Inr reset init_thread_getparam_failed [OF inh Inr reset Inl] show ?thesis
          by (auto simp add: new_calls_def)
      next
        case (Inr priority)
        define w2 where "w2 = record_call (Sched_getparam 0)
                (record_call (Sched_getscheduler (int policy))
                   (upd_thread w3 th init_thread_fields))"
        have a: "init_thread_apply e w2 th True (int policy) priority = (w4, init_errno)"
          using init init_thread_reset_on_fork [OF inh \<open>sched_getscheduler_ret e = Inr policy\<close>
              reset Inr]
          by (simp add: w2_def)
        have need: "if attr_flags (attr (load_thread w2 th))
                        AND (PTHREAD_ATTR_FLAG_INHERIT OR PTHREAD_ATTR_FLAG_EXPLICIT) = 0
                    then attr_sched_policy (attr (load_thread w2 th)) \<noteq> SCHED_NORMAL else True"
          using inh by (simp add: w2_def flags_either_zero)
        have "take 3 (new_calls w3 w4) =
                [Sched_getscheduler (int policy), Sched_getparam 0,
                 Sched_setscheduler rc (int policy) priority
                   (if sched_setscheduler_ret e = None then 0 else -1)]"
        proof (cases "sched_setscheduler_ret e")
          case None
          from a init_thread_apply_ok [OF need None, of "int policy" priority] show ?thesis
            by (auto simp add: new_calls_def w2_def tid None)
        next
          case (Some err)
          from a init_thread_apply_failed [OF need Some, of "int policy" priority] show ?thesis
            by (auto simp add: new_calls_def w2_def tid Some)
        qed
        with \<open>sched_getscheduler_ret e = Inr policy\<close> reset Inr show ?thesis
          by simp
      qed
    qed
  qed
  have "\<exists>w'. pthread_create g e w attr_p r arg = (w', init_errno, None)
               \<and> (\<exists>child_stack. kernel_threads w' = (rc, th, child_stack) # kernel_threads w)
               \<and> join_state (load_thread w' th) = THREAD_DETACHED
               \<and> pthread_start w' th = Some Do_nothing"
    if "init_errno \<noteq> 0"
    using abandon_spawned_thread [OF len spawn rc init that] by blast
  with sched kt show ?thesis
    by blast
qed

theorem inherited_scheduling_after_spawn_witness:
  "snd (pthread_create_spawn globals0 (env0\<lparr>sched_getscheduler_ret := Inl 1\<rparr>) world0
          (Some (attr0\<lparr>attr_flags := 4\<rparr>)) (Caller_routine 1) 0)
     = Inr (0x70118000 :: 64 word, 4242)
   \<and> attr_flags (attr0\<lparr>attr_flags := 4\<rparr> :: 64 word pthread_attr_t) AND PTHREAD_ATTR_FLAG_INHERIT = 4
   \<and> new_calls
         (fst (pthread_create_spawn globals0 (env0\<lparr>sched_getscheduler_ret := Inl 1\<rparr>) world0
            (Some (attr0\<lparr>attr_flags := 4\<rparr>)) (Caller_routine 1) 0))
         (fst (init_thread (env0\<lparr>sched_getscheduler_ret := Inl 1\<rparr>)
            (fst (pthread_create_spawn globals0 (env0\<lparr>sched_getscheduler_ret := Inl 1\<rparr>) world0
               (Some (attr0\<lparr>attr_flags := 4\<rparr>)) (Caller_routine 1) 0))
            (0x70118000 :: 64 word)))
       = [Sched_getscheduler (-1), Log_warn ''pthread_create sched_getscheduler failed'']
   \<and> snd (pthread_create globals0 (env0\<lparr>sched_getscheduler_ret := Inl 1\<rparr>) world0
          (Some (attr0\<lparr>attr_flags := 4\<rparr>)) (Caller_routine 1) (0 :: 64 word)) = (1, None)"
proof -
  define e :: "64 word env" where "e = env0\<lparr>sched_getscheduler_ret := Inl 1\<rparr>"
  define a :: "64 word pthread_attr_t" where "a = attr0\<lparr>attr_flags := 4\<rparr>"
  define S where "S = pthread_create_spawn globals0 e world0 (Some a) (Caller_routine 1) 0"
  define I where "I = init_thread e (fst S) 0x70118000"
  have len: "32 \<le> LENGTH(64)"
    by simp
  have s: "snd S = Inr (0x70118000, 4242)"
    by (simp add: S_def e_def a_def run_defs)
  then have spawn: "pthread_create_spawn globals0 e world0 (Some a) (Caller_routine 1) 0
      = (fst S, Inr (0x70118000, 4242))"
    by (simp add: S_def prod_eq_iff)
  have rc: "(4242 :: int) \<noteq> -1"
    by simp
  have flag: "attr_flags a AND PTHREAD_ATTR_FLAG_INHERIT = 4"
    by (simp add: a_def PTHREAD_ATTR_FLAG_INHERIT_def)
  then have inherit: "attr_flags (case Some a of None \<Rightarrow> pthread_attr_init globals0 | Some a \<Rightarrow> a)
                    AND PTHREAD_ATTR_FLAG_INHERIT \<noteq> 0"
    by simp
  have init: "init_thread e (fst S) 0x70118000 = (fst I, snd I)"
    by (simp add: I_def)
  have q: "sched_getscheduler_ret e = Inl 1"
    by (simp add: e_def)
  from inherited_scheduling_after_spawn [OF len spawn rc inherit init] s flag
  show ?thesis
    unfolding q unfolding S_def I_def e_def a_def by auto
qed

subsection \<open>C5: the layout of a successful mapping\<close>

text \<open>
  Claim C5. Let the stack size and the guard size be page multiples and let
  \<^verbatim>\<open>__allocate_thread_mapping\<close> succeed (return a mapping that is not the empty one).
  Then the six sub-regions, in the order stack guard, usable stack, gap, bookkeeping
  structure, static TLS, tail guard, tile the mapping from its base to its end: each
  begins where the one before ends, so they ascend and no two overlap. Every offset and
  size is a page multiple, the total size is the sum of the six sizes, and the tail guard
  is exactly \<^verbatim>\<open>PTHREAD_GUARD_SIZE\<close>. The calls made are the reservation of the whole
  mapping without access and two grants of read-write access: the usable stack, and
  from the bookkeeping structure over the bytes of the static TLS. (The static TLS region
  is counted in whole pages: \<^verbatim>\<open>layout.size()\<close> itself need not be a page multiple, and
  the code rounds only the total.)
\<close>

theorem successful_mapping_layout:
  fixes s gd :: "'a::len word"
  assumes len: "32 \<le> LENGTH('a)"
    and s: "4096 dvd unat s" and gd: "4096 dvd unat gd"
    and run: "allocate_thread_mapping g e w s gd = (w', mp)"
    and ok: "mp \<noteq> ThreadMapping_empty"
  shows "tiles 0 (sub_regions g s gd (gap_size_of (gap_random e) s) (mmap_size mp))
           (unat (mmap_size mp))
       \<and> list_all (\<lambda>(off, n). 4096 dvd off \<and> 4096 dvd n)
           (sub_regions g s gd (gap_size_of (gap_random e) s) (mmap_size mp))
       \<and> unat (mmap_size mp) =
           sum_list (map snd (sub_regions g s gd (gap_size_of (gap_random e) s) (mmap_size mp)))
       \<and> snd (last (sub_regions g s gd (gap_size_of (gap_random e) s) (mmap_size mp)))
           = unat (PTHREAD_GUARD_SIZE :: 'a word)
       \<and> stack_base mp = mmap_base mp
       \<and> static_tls mp =
           mmap_base mp + gd + s + gap_size_of (gap_random e) s + thread_page_size g
       \<and> unat (thread_page_size g + layout_size g)
           = unat (thread_page_size g) + unat (layout_size g)
       \<and> new_calls w w' =
           [Mmap (mmap_size mp) PROT_NONE (Some (mmap_base mp)),
            Mprotect (mmap_base mp + gd) s PROT_READ_WRITE True,
            Prctl_set_vma_anon_name (mmap_base mp) gd ''stack guard'',
            Prctl_set_vma_anon_name (mmap_base mp + gd + s) (gap_size_of (gap_random e) s)
              ''stack top guard'',
            Mprotect (mmap_base mp + gd + s + gap_size_of (gap_random e) s)
              (thread_page_size g + layout_size g) PROT_READ_WRITE True]"
proof -
  define gap where "gap = gap_size_of (gap_random e) s"
  have len': "12 < LENGTH('a)"
    using len by simp
  from run ok obtain m space where
    m: "compute_mmap_size g s gd gap = Some m" and env: "mmap_ret e = Inr space"
      "mprotect_stack_ret e = None" "mprotect_tls_ret e = None"
    unfolding gap_def by (rule allocate_thread_mapping_nonempty)
  note res = allocate_thread_mapping_ok [OF m [unfolded gap_def] env, of w]
  from run res have w': "new_calls w w' =
           [Mmap m PROT_NONE (Some space),
            Mprotect (space + gd) s PROT_READ_WRITE True,
            Prctl_set_vma_anon_name space gd ''stack guard'',
            Prctl_set_vma_anon_name (space + gd + s) gap ''stack top guard'',
            Mprotect (space + gd + s + gap) (thread_page_size g + layout_size g)
              PROT_READ_WRITE True]"
    by (auto simp add: gap_def new_calls_def)
  from run res have mp: "mmap_base mp = space" "mmap_size mp = m" "stack_base mp = space"
    "static_tls mp = space + gd + s + gap + thread_page_size g"
    by (auto simp add: gap_def)
  define G S P T L where "G = unat gd" and "S = unat s" and "P = unat gap"
    and "T = unat (thread_page_size g)" and "L = unat (layout_size g)"
  have total: "unat m = G + S + P + T + round_up_page L + 4096"
    using compute_mmap_size_Some(1) [OF len' m]
      round_up_page_requested [OF len s gd, of g "gap_random e"]
    by (simp add: gap_def G_def S_def P_def T_def L_def)
  have lt: "G + S + P + T + round_up_page L + 4096 < 2 ^ LENGTH('a)"
    using compute_mmap_size_Some(2) [OF len' m]
      round_up_page_requested [OF len s gd, of g "gap_random e"]
    by (simp add: gap_def G_def S_def P_def T_def L_def)
  have L: "L \<le> round_up_page L"
    by (rule round_up_page_ge)
  have 1: "unat (gd + s) = G + S"
    unfolding G_def S_def by (rule unat_add_no_overflow) (use lt in \<open>simp add: G_def S_def\<close>)
  have 2: "unat (gd + s + gap) = G + S + P"
    using unat_add_no_overflow [of "gd + s" gap] lt by (simp add: 1 P_def)
  have 3: "unat (gd + s + gap + thread_page_size g) = G + S + P + T"
    using unat_add_no_overflow [of "gd + s + gap" "thread_page_size g"] lt by (simp add: 2 T_def)
  have 4: "unat (thread_page_size g + layout_size g) = T + L"
    using unat_add_no_overflow [of "thread_page_size g" "layout_size g"] lt L
    by (simp add: T_def L_def)
  have regions: "sub_regions g s gd gap m =
      [(0, G), (G, S), (G + S, P), (G + S + P, T), (G + S + P + T, round_up_page L),
       (G + S + P + T + round_up_page L, 4096)]"
    by (simp add: sub_regions_def 1 2 3 total Let_def flip: G_def S_def P_def T_def L_def)
  have dvd: "4096 dvd G" "4096 dvd S" "4096 dvd P" "4096 dvd T" "4096 dvd round_up_page L"
    using s gd gap_size_dvd [OF len, of "gap_random e" s] thread_page_size_dvd [OF len', of g]
    by (simp_all add: G_def S_def P_def T_def gap_def round_up_page_dvd)
  show ?thesis
    unfolding gap_def [symmetric] mp regions w'
    using dvd by (simp add: total 4 unat_PTHREAD_GUARD_SIZE [OF len'] T_def L_def)
qed

theorem successful_mapping_layout_witness:
  "snd (allocate_thread_mapping globals0 env0 world0 (1015808 :: 64 word) 4096)
     \<noteq> ThreadMapping_empty
   \<and> 4096 dvd unat (1015808 :: 64 word) \<and> 4096 dvd unat (4096 :: 64 word)
   \<and> sub_regions globals0 (1015808 :: 64 word) 4096
         (gap_size_of (gap_random (env0 :: 64 word env)) 1015808) 1171456
       = [(0, 4096), (4096, 1015808), (1019904, 126976), (1146880, 4096), (1150976, 16384),
          (1167360, 4096)]
   \<and> tiles 0 (sub_regions globals0 (1015808 :: 64 word) 4096
         (gap_size_of (gap_random (env0 :: 64 word env)) 1015808) 1171456) 1171456"
proof -
  define R where "R = allocate_thread_mapping globals0 env0 world0 (1015808 :: 64 word) 4096"
  have len: "32 \<le> LENGTH(64)"
    by simp
  have s: "4096 dvd unat (1015808 :: 64 word)" and gd: "4096 dvd unat (4096 :: 64 word)"
    by simp_all
  have run: "allocate_thread_mapping globals0 env0 world0 (1015808 :: 64 word) 4096 = (fst R, snd R)"
    by (simp add: R_def)
  have size: "mmap_size (snd R) = 1171456"
    by (simp add: R_def code_defs macro_defs sys_defs example_defs Let_def)
  then have ok: "snd R \<noteq> ThreadMapping_empty"
    by (auto simp add: ThreadMapping_empty_def)
  have regions: "sub_regions globals0 (1015808 :: 64 word) 4096
         (gap_size_of (gap_random (env0 :: 64 word env)) 1015808) 1171456
       = [(0, 4096), (4096, 1015808), (1019904, 126976), (1146880, 4096), (1150976, 16384),
          (1167360, 4096)]"
    by (simp add: sub_regions_def round_up_page_def macro_defs example_defs Let_def)
  show ?thesis
    using successful_mapping_layout [OF len s gd run ok] ok s gd regions
    by (simp add: size R_def)
qed

subsection \<open>C6: the size of the gap\<close>

text \<open>
  Claim C6 says the gap never exceeds one tenth of the stack size on 32-bit targets and
  one half on 64-bit targets, as the comment above the computation does. The random
  draw is below that bound, but it is then rounded up to a page multiple, which can
  exceed it. On a 32-bit target, a stack of 1 MiB and the draw 104000 (below 104857)
  give a gap of 106496 bytes, more than a tenth; on a 64-bit target, a stack of five
  pages and the draw 9000 (below 10240) give a gap of 12288 bytes, more than half, and
  this is the length \<^verbatim>\<open>__allocate_thread_mapping\<close> names "stack top guard".
\<close>

theorem gap_exceeds_documented_fraction:
  "gap_size_of 104000 (1048576 :: 32 word) = 106496
   \<and> unat (1048576 :: 32 word) div 10 < unat (gap_size_of 104000 (1048576 :: 32 word))
   \<and> gap_size_of 9000 (20480 :: 64 word) = 12288
   \<and> unat (20480 :: 64 word) div 2 < unat (gap_size_of 9000 (20480 :: 64 word))
   \<and> Prctl_set_vma_anon_name 0x70006000 12288 ''stack top guard''
         \<in> set (calls (fst (allocate_thread_mapping (globals0 :: 64 word libc_globals)
                   (env0\<lparr>gap_random := 9000\<rparr>) world0 20480 4096)))"
  by (simp add: code_defs macro_defs sys_defs example_defs)

subsection \<open>C7: a failed explicit scheduling call, by build target\<close>

text \<open>
  Claim C7. Let \<^verbatim>\<open>__init_thread\<close>, run for the new thread after the spawn, make a
  \<^verbatim>\<open>sched_setscheduler\<close> call that fails. Then a warning is logged on every target. On
  an LP64 target \<^verbatim>\<open>__init_thread\<close> returns the errno of the failed call. On the other
  targets it returns 0, and \<^verbatim>\<open>pthread_create\<close> goes on as after a success: it returns 0
  with the handle, the thread is registered and released to run the caller's entry
  point, the kernel thread is there, and the mapping is live and recorded in the
  thread's structure, from which the exit path releases it; nothing else was mapped or
  unmapped.
\<close>

theorem setscheduler_failure_by_target:
  fixes w :: "'a::len word world"
  assumes len: "32 \<le> LENGTH('a)"
    and spawn: "pthread_create_spawn g e w attr_p r arg = (w3, Inr (th, rc))"
    and rc: "rc \<noteq> -1"
    and init: "init_thread e w3 th = (w4, init_errno)"
    and call: "Sched_setscheduler t p pr (-1) \<in> set (new_calls w3 w4)"
  shows "\<exists>err. sched_setscheduler_ret e = Some err
          \<and> Log_warn ''pthread_create sched_setscheduler call failed'' \<in> set (new_calls w3 w4)
          \<and> (LP64 TYPE('a) \<longrightarrow> init_errno = err)
          \<and> (\<not> LP64 TYPE('a) \<longrightarrow> init_errno = 0
                \<and> (\<exists>w'. pthread_create g e w attr_p r arg = (w', 0, Some th)
                      \<and> registry w' = th # registry w
                      \<and> start_routine (load_thread w' th) = r
                      \<and> startup_handshake_lock (load_thread w' th) = Unlocked
                      \<and> pthread_start w' th = Some r
                      \<and> (\<exists>child_stack. kernel_threads w' = (rc, th, child_stack) # kernel_threads w)
                      \<and> mappings w' =
                          (thread_mmap_base (load_thread w' th), thread_mmap_size (load_thread w' th))
                            # mappings w
                      \<and> new_calls w4 w' = [Pthread_internal_add th, Lock_unlock th]))"
proof -
  have len': "12 < LENGTH('a)"
    using len by simp
  from init_thread_setscheduler_failed [OF init call] obtain err where err:
    "sched_setscheduler_ret e = Some err" "init_errno = (if LP64 TYPE('a) then err else 0)"
    "Log_warn ''pthread_create sched_setscheduler call failed'' \<in> set (new_calls w3 w4)"
    by blast
  have published: "\<exists>w'. pthread_create g e w attr_p r arg = (w', 0, Some th)
                      \<and> registry w' = th # registry w
                      \<and> start_routine (load_thread w' th) = r
                      \<and> startup_handshake_lock (load_thread w' th) = Unlocked
                      \<and> pthread_start w' th = Some r
                      \<and> (\<exists>child_stack. kernel_threads w' = (rc, th, child_stack) # kernel_threads w)
                      \<and> mappings w' =
                          (thread_mmap_base (load_thread w' th), thread_mmap_size (load_thread w' th))
                            # mappings w
                      \<and> new_calls w4 w' = [Pthread_internal_add th, Lock_unlock th]"
    if zero: "init_errno = 0"
  proof -
    obtain child_stack where sp:
      "start_routine (load_thread w3 th) = r"
      "mappings w3 = (thread_mmap_base (load_thread w3 th), thread_mmap_size (load_thread w3 th))
                     # mappings w"
      "registry w3 = registry w"
      "rc \<noteq> -1 \<longrightarrow> kernel_threads w3 = (rc, th, child_stack) # kernel_threads w
               \<and> tid (load_thread w3 th) = rc \<and> errno w3 = errno w"
      by (rule pthread_create_spawn_result [OF len' spawn]) (rule that; assumption)
    note fr = init_thread_frame [OF init]
    define w6 where "w6 = lock_unlock (fst (pthread_internal_add w4 th)) th"
    have body: "pthread_create_body g e w attr_p r arg = (w6, 0, Some th)"
      using spawn rc init zero
      by (simp add: pthread_create_body_def w6_def pthread_internal_add_def)
    have "pthread_create g e w attr_p r arg = (w6\<lparr>errno := errno w\<rparr>, 0, Some th)"
      by (simp add: pthread_create_def body)
    moreover have "registry (w6\<lparr>errno := errno w\<rparr>) = th # registry w"
      "start_routine (load_thread (w6\<lparr>errno := errno w\<rparr>) th) = r"
      "startup_handshake_lock (load_thread (w6\<lparr>errno := errno w\<rparr>) th) = Unlocked"
      "pthread_start (w6\<lparr>errno := errno w\<rparr>) th = Some r"
      "kernel_threads (w6\<lparr>errno := errno w\<rparr>) = (rc, th, child_stack) # kernel_threads w"
      "mappings (w6\<lparr>errno := errno w\<rparr>) =
         (thread_mmap_base (load_thread (w6\<lparr>errno := errno w\<rparr>) th),
          thread_mmap_size (load_thread (w6\<lparr>errno := errno w\<rparr>) th)) # mappings w"
      "new_calls w4 (w6\<lparr>errno := errno w\<rparr>) = [Pthread_internal_add th, Lock_unlock th]"
      using sp fr rc
      by (simp_all add: w6_def lock_unlock_def pthread_internal_add_def pthread_start_def
          new_calls_def)
    ultimately show ?thesis
      by (intro exI [of _ "w6\<lparr>errno := errno w\<rparr>"]) simp
  qed
  show ?thesis
    using err published by (intro exI [of _ err]) simp
qed

theorem setscheduler_failure_by_target_witness:
  "Sched_setscheduler 4242 1 50 (-1)
     \<in> set (new_calls
          (fst (pthread_create_spawn globals0 (env0\<lparr>sched_setscheduler_ret := Some 1\<rparr>) world0
            (Some (attr0\<lparr>attr_flags := 8, attr_sched_policy := 1, attr_sched_priority := 50\<rparr>))
            (Caller_routine 1) 0))
          (fst (init_thread (env0\<lparr>sched_setscheduler_ret := Some 1\<rparr>)
            (fst (pthread_create_spawn globals0 (env0\<lparr>sched_setscheduler_ret := Some 1\<rparr>) world0
              (Some (attr0\<lparr>attr_flags := 8, attr_sched_policy := 1, attr_sched_priority := 50\<rparr>))
              (Caller_routine 1) 0))
            (0x70118000 :: 64 word))))
   \<and> snd (init_thread (env0\<lparr>sched_setscheduler_ret := Some 1\<rparr>)
          (fst (pthread_create_spawn globals0 (env0\<lparr>sched_setscheduler_ret := Some 1\<rparr>) world0
            (Some (attr0\<lparr>attr_flags := 8, attr_sched_policy := 1, attr_sched_priority := 50\<rparr>))
            (Caller_routine 1) 0))
          (0x70118000 :: 64 word)) = 1
   \<and> snd (init_thread (env0\<lparr>sched_setscheduler_ret := Some 1\<rparr>)
          (fst (pthread_create_spawn globals0 (env0\<lparr>sched_setscheduler_ret := Some 1\<rparr>) world0
            (Some (attr0\<lparr>attr_flags := 8, attr_sched_policy := 1, attr_sched_priority := 50\<rparr>))
            (Caller_routine 1) 0))
          (0x700FF000 :: 32 word)) = 0
   \<and> snd (pthread_create globals0 (env0\<lparr>sched_setscheduler_ret := Some 1\<rparr>) world0
          (Some (attr0\<lparr>attr_flags := 8, attr_sched_policy := 1, attr_sched_priority := 50\<rparr>))
          (Caller_routine 1) 0) = (0, Some (0x700FF000 :: 32 word))"
proof -
  define e64 :: "64 word env" where "e64 = env0\<lparr>sched_setscheduler_ret := Some 1\<rparr>"
  define a64 :: "64 word pthread_attr_t" where
    "a64 = attr0\<lparr>attr_flags := 8, attr_sched_policy := 1, attr_sched_priority := 50\<rparr>"
  define S64 where "S64 = pthread_create_spawn globals0 e64 world0 (Some a64) (Caller_routine 1) 0"
  define I64 where "I64 = init_thread e64 (fst S64) 0x70118000"
  define e32 :: "32 word env" where "e32 = env0\<lparr>sched_setscheduler_ret := Some 1\<rparr>"
  define a32 :: "32 word pthread_attr_t" where
    "a32 = attr0\<lparr>attr_flags := 8, attr_sched_policy := 1, attr_sched_priority := 50\<rparr>"
  define S32 where "S32 = pthread_create_spawn globals0 e32 world0 (Some a32) (Caller_routine 1) 0"
  define I32 where "I32 = init_thread e32 (fst S32) 0x700FF000"
  have len64: "32 \<le> LENGTH(64)" and len32: "32 \<le> LENGTH(32)"
    by simp_all
  have rc: "(4242 :: int) \<noteq> -1"
    by simp
  have s64: "snd S64 = Inr (0x70118000, 4242)"
    by (simp add: S64_def e64_def a64_def run_defs)
  then have spawn64: "pthread_create_spawn globals0 e64 world0 (Some a64) (Caller_routine 1) 0
      = (fst S64, Inr (0x70118000, 4242))"
    by (simp add: S64_def prod_eq_iff)
  have init64: "init_thread e64 (fst S64) 0x70118000 = (fst I64, snd I64)"
    by (simp add: I64_def)
  have call64: "Sched_setscheduler 4242 1 50 (-1) \<in> set (new_calls (fst S64) (fst I64))"
    by (simp add: I64_def S64_def e64_def a64_def run_defs)
  have s32: "snd S32 = Inr (0x700FF000, 4242)"
    by (simp add: S32_def e32_def a32_def run_defs)
  then have spawn32: "pthread_create_spawn globals0 e32 world0 (Some a32) (Caller_routine 1) 0
      = (fst S32, Inr (0x700FF000, 4242))"
    by (simp add: S32_def prod_eq_iff)
  have init32: "init_thread e32 (fst S32) 0x700FF000 = (fst I32, snd I32)"
    by (simp add: I32_def)
  have call32: "Sched_setscheduler 4242 1 50 (-1) \<in> set (new_calls (fst S32) (fst I32))"
    by (simp add: I32_def S32_def e32_def a32_def run_defs)
  have "snd I64 = 1"
    using setscheduler_failure_by_target [OF len64 spawn64 rc init64 call64]
    by (auto simp add: LP64_def e64_def)
  moreover have "snd I32 = 0
      \<and> snd (pthread_create globals0 e32 world0 (Some a32) (Caller_routine 1) 0)
          = (0, Some (0x700FF000 :: 32 word))"
    using setscheduler_failure_by_target [OF len32 spawn32 rc init32 call32]
    by (auto simp add: LP64_def)
  ultimately show ?thesis
    using call64 unfolding S64_def I64_def e64_def a64_def S32_def I32_def e32_def a32_def
    by simp
qed

subsection \<open>C8: the spawn fails\<close>

text \<open>
  Claim C8. Let the allocation have succeeded and let \<^verbatim>\<open>clone\<close> fail with an error.
  Then \<^verbatim>\<open>pthread_create\<close> returns that error and writes no handle. After the failed
  \<^verbatim>\<open>clone\<close> it releases the handshake lock, unmaps the thread's whole mapping and
  logs a warning, in this order. Afterwards the live mappings, the kernel threads and
  the registry are those from before the call, so no kernel thread was added, and errno
  is as before the call.
\<close>

theorem clone_failure_releases_mapping:
  fixes w :: "'a::len word world"
  assumes len: "32 \<le> LENGTH('a)"
    and spawn: "pthread_create_spawn g e w attr_p r arg = (w3, Inr (th, rc))"
    and failed: "clone_ret e = Inl err"
  shows "\<exists>w' child_stack space m.
           pthread_create g e w attr_p r arg = (w', err, None)
         \<and> last (calls w3) = Clone child_stack th (-1)
         \<and> mappings w3 = (space, m) # mappings w
         \<and> new_calls w3 w' =
             [Lock_unlock th, Munmap space m, Log_warn ''pthread_create failed: clone failed'']
         \<and> mappings w' = mappings w
         \<and> kernel_threads w' = kernel_threads w
         \<and> registry w' = registry w
         \<and> errno w' = errno w"
proof -
  have len': "12 < LENGTH('a)"
    using len by simp
  obtain child_stack where raw:
    "thread_mmap_size (load_thread w3 th) \<noteq> 0"
    "mappings w3 = (thread_mmap_base (load_thread w3 th), thread_mmap_size (load_thread w3 th))
                     # mappings w"
    "registry w3 = registry w"
    "last (calls w3) = Clone child_stack th rc"
    "rc = -1 \<longrightarrow> (\<exists>err. clone_ret e = Inl err \<and> errno w3 = err)
               \<and> kernel_threads w3 = kernel_threads w"
    "case clone_ret e of Inl err \<Rightarrow> rc = -1 | Inr n \<Rightarrow> rc = int n"
    by (rule pthread_create_spawn_result [OF len' spawn]) (rule that; assumption)
  from raw(6) failed have rc: "rc = -1"
    by simp
  with raw(5) failed have sp5: "errno w3 = err" "kernel_threads w3 = kernel_threads w"
    by auto
  note sp = rc sp5(1) raw(1,2,3) sp5(2) raw(4)
  define space m where "space = thread_mmap_base (load_thread w3 th)"
    and "m = thread_mmap_size (load_thread w3 th)"
  define w6 where "w6 =
    async_safe_format_log (sys_munmap (lock_unlock w3 th) space m)
      ''pthread_create failed: clone failed''"
  have body: "pthread_create_body g e w attr_p r arg = (w6, err, None)"
    using spawn sp(1,2,3)
    by (simp add: pthread_create_body_def w6_def space_def m_def Let_def lock_unlock_def)
  have "pthread_create g e w attr_p r arg = (w6\<lparr>errno := errno w\<rparr>, err, None)"
    by (simp add: pthread_create_def body)
  moreover have "new_calls w3 (w6\<lparr>errno := errno w\<rparr>) =
      [Lock_unlock th, Munmap space m, Log_warn ''pthread_create failed: clone failed'']"
    by (simp add: w6_def new_calls_def async_safe_format_log_def sys_munmap_def lock_unlock_def)
  moreover have "mappings (w6\<lparr>errno := errno w\<rparr>) = mappings w"
    "kernel_threads (w6\<lparr>errno := errno w\<rparr>) = kernel_threads w"
    "registry (w6\<lparr>errno := errno w\<rparr>) = registry w"
    using sp(4,5,6)
    by (simp_all add: w6_def async_safe_format_log_def sys_munmap_def lock_unlock_def
        space_def m_def)
  ultimately show ?thesis
    using sp(1,4,7) unfolding space_def [symmetric] m_def [symmetric]
    by (intro exI [of _ "w6\<lparr>errno := errno w\<rparr>"] exI [of _ child_stack] exI [of _ space]
        exI [of _ m]) simp
qed

theorem clone_failure_releases_mapping_witness:
  "clone_ret (env0\<lparr>clone_ret := Inl 11\<rparr> :: 64 word env) = Inl 11
   \<and> snd (pthread_create_spawn globals0 (env0\<lparr>clone_ret := Inl 11\<rparr>) world0 None
          (Caller_routine 1) 0) = Inr (0x70118000 :: 64 word, -1)
   \<and> snd (pthread_create globals0 (env0\<lparr>clone_ret := Inl 11\<rparr>) world0 None
          (Caller_routine 1) (0 :: 64 word)) = (11, None)
   \<and> mappings (fst (pthread_create globals0 (env0\<lparr>clone_ret := Inl 11\<rparr>) world0 None
          (Caller_routine 1) (0 :: 64 word))) = []
   \<and> kernel_threads (fst (pthread_create globals0 (env0\<lparr>clone_ret := Inl 11\<rparr>) world0 None
          (Caller_routine 1) (0 :: 64 word))) = []"
proof -
  define e :: "64 word env" where "e = env0\<lparr>clone_ret := Inl 11\<rparr>"
  define S where "S = pthread_create_spawn globals0 e world0 None (Caller_routine 1) 0"
  have len: "32 \<le> LENGTH(64)"
    by simp
  have s: "snd S = Inr (0x70118000, -1)"
    by (simp add: S_def e_def run_defs)
  then have spawn: "pthread_create_spawn globals0 e world0 None (Caller_routine 1) 0
      = (fst S, Inr (0x70118000, -1))"
    by (simp add: S_def prod_eq_iff)
  have failed: "clone_ret e = Inl 11"
    by (simp add: e_def)
  have w: "mappings (world0 :: 64 word world) = []" "kernel_threads (world0 :: 64 word world) = []"
    by (simp_all add: world0_def)
  from clone_failure_releases_mapping [OF len spawn failed] s failed w
  show ?thesis
    unfolding S_def e_def by auto
qed

subsection \<open>C9: a stack supplied by the caller\<close>

text \<open>
  Claim C9. Let the attributes carry a stack of the caller (a non-null
  \<^verbatim>\<open>stack_base\<close>). Then \<^verbatim>\<open>__allocate_thread\<close> makes the calls, and leaves the mappings,
  of \<^verbatim>\<open>__allocate_thread_mapping(0, PTHREAD_GUARD_SIZE)\<close>, whatever guard size and stack
  size the attributes hold. When it succeeds, the one new mapping holds no stack bytes:
  its size is the minimum guard, the pages of the bookkeeping structure, the pages of
  the static TLS and the tail guard; the grant for the stack has length 0; and the
  initial stack pointer returned is the caller's base plus size. That pointer is what
  \<^verbatim>\<open>pthread_create\<close> passes to \<^verbatim>\<open>clone\<close>, so a spawned kernel thread starts on it.
\<close>

theorem caller_stack_maps_only_thread_area:
  fixes at :: "'a::len word pthread_attr_t"
  assumes len: "32 \<le> LENGTH('a)"
    and stack: "attr_stack_base at \<noteq> 0"
    and run: "allocate_thread g e w at = (w1, res)"
  shows "new_calls w w1 = new_calls w (fst (allocate_thread_mapping g e w 0 PTHREAD_GUARD_SIZE))
       \<and> mappings w1 = mappings (fst (allocate_thread_mapping g e w 0 PTHREAD_GUARD_SIZE))
       \<and> (\<forall>tcb child_stack. res = Inr (tcb, child_stack) \<longrightarrow>
             child_stack = attr_stack_base at + attr_stack_size at
             \<and> (\<exists>space m.
                   mappings w1 = (space, m) # mappings w
                   \<and> unat m = unat (PTHREAD_GUARD_SIZE :: 'a word) + unat (thread_page_size g)
                               + round_up_page (unat (layout_size g))
                               + unat (PTHREAD_GUARD_SIZE :: 'a word)
                   \<and> new_calls w w1 =
                       [Mmap m PROT_NONE (Some space),
                        Mprotect (space + PTHREAD_GUARD_SIZE) 0 PROT_READ_WRITE True,
                        Prctl_set_vma_anon_name space PTHREAD_GUARD_SIZE ''stack guard'',
                        Prctl_set_vma_anon_name (space + PTHREAD_GUARD_SIZE) 0 ''stack top guard'',
                        Mprotect (space + PTHREAD_GUARD_SIZE)
                          (thread_page_size g + layout_size g) PROT_READ_WRITE True]))
       \<and> (\<forall>r arg w3 th rc.
             pthread_create_spawn g e w (Some at) r arg = (w3, Inr (th, rc)) \<longrightarrow>
               last (calls w3) = Clone (attr_stack_base at + attr_stack_size at) th rc
               \<and> (rc \<noteq> -1 \<longrightarrow>
                    kernel_threads w3
                      = (rc, th, attr_stack_base at + attr_stack_size at) # kernel_threads w))"
proof -
  have len': "12 < LENGTH('a)"
    using len by simp
  obtain w' mp where mp: "allocate_thread_mapping g e w 0 PTHREAD_GUARD_SIZE = (w', mp)"
    by (cases "allocate_thread_mapping g e w 0 (PTHREAD_GUARD_SIZE :: 'a word)")
  note at = allocate_thread_caller_stack [OF stack mp]
  have frame: "calls w1 = calls w'" "mappings w1 = mappings w'"
  proof -
    show "calls w1 = calls w'"
    proof (cases "mmap_base mp = 0")
      case True
      with run at show ?thesis by simp
    next
      case False
      with run at have "allocate_thread_finish g w' at mp
          (attr_stack_base at + attr_stack_size at) False = (w1, res)"
        by simp
      then show ?thesis
        by (rule allocate_thread_finish_result)
    qed
    show "mappings w1 = mappings w'"
    proof (cases "mmap_base mp = 0")
      case True
      with run at show ?thesis by simp
    next
      case False
      with run at have "allocate_thread_finish g w' at mp
          (attr_stack_base at + attr_stack_size at) False = (w1, res)"
        by simp
      then show ?thesis
        by (rule allocate_thread_finish_result)
    qed
  qed
  have part1: "new_calls w w1 = new_calls w (fst (allocate_thread_mapping g e w 0 PTHREAD_GUARD_SIZE))"
    "mappings w1 = mappings (fst (allocate_thread_mapping g e w 0 PTHREAD_GUARD_SIZE))"
    using frame by (simp_all add: mp new_calls_def)
  have part2: "child_stack = attr_stack_base at + attr_stack_size at
             \<and> (\<exists>space m.
                   mappings w1 = (space, m) # mappings w
                   \<and> unat m = unat (PTHREAD_GUARD_SIZE :: 'a word) + unat (thread_page_size g)
                               + round_up_page (unat (layout_size g))
                               + unat (PTHREAD_GUARD_SIZE :: 'a word)
                   \<and> new_calls w w1 =
                       [Mmap m PROT_NONE (Some space),
                        Mprotect (space + PTHREAD_GUARD_SIZE) 0 PROT_READ_WRITE True,
                        Prctl_set_vma_anon_name space PTHREAD_GUARD_SIZE ''stack guard'',
                        Prctl_set_vma_anon_name (space + PTHREAD_GUARD_SIZE) 0 ''stack top guard'',
                        Mprotect (space + PTHREAD_GUARD_SIZE)
                          (thread_page_size g + layout_size g) PROT_READ_WRITE True])"
    if res: "res = Inr (tcb, child_stack)" for tcb child_stack
  proof -
    from run at res have base: "mmap_base mp \<noteq> 0"
      by (auto split: if_splits)
    with run at res have fin: "allocate_thread_finish g w' at mp
          (attr_stack_base at + attr_stack_size at) False = (w1, Inr (tcb, child_stack))"
      by simp
    from allocate_thread_finish_result(1) [OF fin]
    have cs: "child_stack = attr_stack_base at + attr_stack_size at"
      by simp
    from mp base obtain m space where
      m: "compute_mmap_size g 0 PTHREAD_GUARD_SIZE (gap_size_of (gap_random e) 0) = Some m"
      and env: "mmap_ret e = Inr space" "mprotect_stack_ret e = None" "mprotect_tls_ret e = None"
      by (rule allocate_thread_mapping_base_nonzero)
    note ok = allocate_thread_mapping_ok [OF m env, of w]
    from mp ok have w': "mappings w' = (space, m) # mappings w"
      "new_calls w w' =
         [Mmap m PROT_NONE (Some space),
          Mprotect (space + PTHREAD_GUARD_SIZE) 0 PROT_READ_WRITE True,
          Prctl_set_vma_anon_name space PTHREAD_GUARD_SIZE ''stack guard'',
          Prctl_set_vma_anon_name (space + PTHREAD_GUARD_SIZE) 0 ''stack top guard'',
          Mprotect (space + PTHREAD_GUARD_SIZE)
            (thread_page_size g + layout_size g) PROT_READ_WRITE True]"
      by (auto simp add: new_calls_def gap_size_of_zero)
    have "unat m = round_up_page (requested_size g 0 PTHREAD_GUARD_SIZE (gap_size_of (gap_random e) 0))"
      by (rule compute_mmap_size_Some(1) [OF len' m])
    also have "\<dots> = unat (PTHREAD_GUARD_SIZE :: 'a word) + unat (0 :: 'a word)
                   + unat (gap_size_of (gap_random e) (0 :: 'a word))
                   + unat (thread_page_size g) + round_up_page (unat (layout_size g)) + 4096"
      by (rule round_up_page_requested [OF len]) (simp_all add: unat_PTHREAD_GUARD_SIZE [OF len'])
    finally have "unat m = unat (PTHREAD_GUARD_SIZE :: 'a word) + unat (thread_page_size g)
                               + round_up_page (unat (layout_size g))
                               + unat (PTHREAD_GUARD_SIZE :: 'a word)"
      by (simp add: gap_size_of_zero unat_PTHREAD_GUARD_SIZE [OF len'])
    with cs w' frame show ?thesis
      by (auto simp add: new_calls_def)
  qed
  have part3: "last (calls w3) = Clone (attr_stack_base at + attr_stack_size at) th rc
               \<and> (rc \<noteq> -1 \<longrightarrow>
                    kernel_threads w3
                      = (rc, th, attr_stack_base at + attr_stack_size at) # kernel_threads w)"
    if spawn: "pthread_create_spawn g e w (Some at) r arg = (w3, Inr (th, rc))"
    for r arg w3 th rc
  proof -
    obtain child_stack where sp:
      "last (calls w3) = Clone child_stack th rc"
      "attr_stack_base (case Some at of None \<Rightarrow> pthread_attr_init g | Some a \<Rightarrow> a) \<noteq> 0
         \<longrightarrow> child_stack = attr_stack_base (case Some at of None \<Rightarrow> pthread_attr_init g | Some a \<Rightarrow> a)
               + attr_stack_size (case Some at of None \<Rightarrow> pthread_attr_init g | Some a \<Rightarrow> a)"
      "rc \<noteq> -1 \<longrightarrow> kernel_threads w3 = (rc, th, child_stack) # kernel_threads w
               \<and> tid (load_thread w3 th) = rc \<and> errno w3 = errno w"
      by (rule pthread_create_spawn_result [OF len' spawn]) (rule that; assumption)
    with stack show ?thesis
      by simp
  qed
  from part1 part2 part3 show ?thesis
    by blast
qed

theorem caller_stack_maps_only_thread_area_witness:
  "attr_stack_base (attr0\<lparr>attr_stack_base := 0x20000000, attr_stack_size := 65536,
       attr_guard_size := 12345\<rparr> :: 64 word pthread_attr_t) = 0x20000000
   \<and> snd (allocate_thread globals0 env0 world0
         (attr0\<lparr>attr_stack_base := 0x20000000, attr_stack_size := 65536,
            attr_guard_size := 12345\<rparr> :: 64 word pthread_attr_t))
       = Inr (0x70002000, 0x20010000)
   \<and> mappings (fst (allocate_thread globals0 env0 world0
         (attr0\<lparr>attr_stack_base := 0x20000000, attr_stack_size := 65536,
            attr_guard_size := 12345\<rparr> :: 64 word pthread_attr_t)))
       = [(0x70000000, 28672)]
   \<and> new_calls world0 (fst (allocate_thread globals0 env0 world0
         (attr0\<lparr>attr_stack_base := 0x20000000, attr_stack_size := 65536,
            attr_guard_size := 12345\<rparr> :: 64 word pthread_attr_t)))
       = new_calls world0 (fst (allocate_thread_mapping globals0 env0 world0 0 PTHREAD_GUARD_SIZE))"
proof -
  define a :: "64 word pthread_attr_t" where
    "a = attr0\<lparr>attr_stack_base := 0x20000000, attr_stack_size := 65536, attr_guard_size := 12345\<rparr>"
  define A where "A = allocate_thread globals0 env0 world0 a"
  have len: "32 \<le> LENGTH(64)"
    by simp
  have base: "attr_stack_base a = 0x20000000"
    by (simp add: a_def)
  then have stack: "attr_stack_base a \<noteq> 0"
    by simp
  have run: "allocate_thread globals0 env0 world0 a = (fst A, snd A)"
    by (simp add: A_def)
  have res: "snd A = Inr (0x70002000, 0x20010000)"
    by (simp add: A_def a_def run_defs)
  have maps: "mappings (fst A) = [(0x70000000, 28672)]"
    by (simp add: A_def a_def run_defs)
  from caller_stack_maps_only_thread_area [OF len stack run] base res maps
  show ?thesis
    unfolding A_def a_def by simp
qed

subsection \<open>C10: errno is the same after the call\<close>

lemma pthread_create_body_sets_errno:
  "errno (fst (pthread_create_body (globals0 :: 64 word libc_globals)
            (env0\<lparr>mmap_ret := Inl 12\<rparr>) world0 None (Caller_routine 1) 0)) = 12
   \<and> pthread_create (globals0 :: 64 word libc_globals)
            (env0\<lparr>mmap_ret := Inl 12\<rparr>) world0 None (Caller_routine 1) 0
       = (world0\<lparr>calls := [Mmap 1171456 PROT_NONE None,
                    Log_warn ''pthread_create failed: couldn't allocate mapped space'']\<rparr>,
          11, None)"
  by (simp add: code_defs macro_defs sys_defs mem_defs example_defs)

text \<open>
  Claim C10. For every call of \<^verbatim>\<open>pthread_create\<close>, whatever the attributes, the entry
  point, the state of the process and the answers of the operating system, and so on
  every path (success, allocation failure, spawn failure, failure of the initialisation
  after the spawn), errno after the call is errno before the call. The error is the
  returned code only. (The lemma above shows a run whose body does change errno, to 12
  after a failed \<^verbatim>\<open>mmap\<close>, and which returns \<^verbatim>\<open>EAGAIN\<close> with errno back at 7.)
\<close>

theorem pthread_create_restores_errno:
  "errno (fst (pthread_create g e w attr_p start_routine_p arg)) = errno w"
  by (simp add: pthread_create_def split: prod.splits)

end
